theory Spec2Isabelle
  imports Main "HOL-Library.Word"
begin

section \<open>Shared vocabulary\<close>

text \<open>
  Go byte slices are lists of 8-bit words; a slice, a pointer or an interface value that
  may be \<^verbatim>\<open>nil\<close> is an \<open>option\<close>. Slots, heights and fork versions are machine words.
  A Go function returning a value and an error returns the pair here, and the callers test
  the error as the source does. Where two Go types offer an accessor of the same name, or
  a service reaches a collaborator through a field, the name carries a prefix
  (\<open>st_\<close>, \<open>bst_\<close>, \<open>bundle_\<close>, \<open>localBuilder_\<close> and the like). The \<^verbatim>\<open>context\<close>
  arguments carry no data the functions read and are left out.
\<close>

type_synonym bytes = "8 word list"
type_synonym Slot = "64 word"
type_synonym Version = "32 word"

text \<open>
  The error values of the packages under study. The sentinels keep the names the source
  gives them; \<open>Newf\<close> is \<^verbatim>\<open>errors.Newf\<close> with its format string and its slot arguments;
  \<open>External\<close> stands for an error produced by a collaborator (state, builder, gossiper,
  responder); \<open>NonFatal\<close> is the wrapper applied by \<^verbatim>\<open>errors.WrapNonFatal\<close>.
\<close>

datatype error =
    ErrNilABCIRequest
  | ErrNoBeaconBlockInRequest
  | ErrBzIndexOutOfBounds
  | ErrNilBeaconBlockInRequest
  | ErrInvalidProcessProposalRequestType
  | ErrInvalidFinalizeBlockRequestType
  | ErrNilPayload
  | Newf string "Slot list"
  | External string
  | NonFatal error

text \<open>
  A Go call either returns or panics (an index out of range, a method reading a field
  through a nil pointer). The panic is a value of the model.
\<close>

datatype 'a outcome = Panic | Return 'a

section \<open>Hex string invariants (\<^verbatim>\<open>mod/primitives/pkg/encoding/hex/format.go\<close>)\<close>

text \<open>
  \<^verbatim>\<open>len(s) >= 2 && s[0] == '0' && (s[1] == 'x' || s[1] == 'X')\<close>: the length test guards
  both index reads.
\<close>

definition has0xPrefix :: "string \<Rightarrow> bool" where
  "has0xPrefix s =
     (length s \<ge> 2 \<and> s ! 0 = CHR ''0'' \<and> (s ! 1 = CHR ''x'' \<or> s ! 1 = CHR ''X''))"

text \<open>
  The type switch of \<^verbatim>\<open>ensure0xPrefix\<close> prepends the two bytes \<^verbatim>\<open>0x\<close> in its
  \<^verbatim>\<open>string\<close> branch and in its \<^verbatim>\<open>[]byte\<close> branch alike; the type constraint leaves
  no other branch reachable.
\<close>

definition ensure0xPrefix :: "string \<Rightarrow> string" where
  "ensure0xPrefix s = (if has0xPrefix s then s else ''0x'' @ s)"

definition ensureStringInvariants :: "string \<Rightarrow> string" where
  "ensureStringInvariants s = ensure0xPrefix (if length s = 0 then ''0'' else s)"

section \<open>Reading a proposal out of an ABCI request (\<^verbatim>\<open>mod/runtime/abci/types/block.go\<close>)\<close>

text \<open>
  \<^verbatim>\<open>ABCIRequest\<close> offers a height, a time and the transaction list. The list itself may be
  nil, and so may each transaction.
\<close>

record ABCIRequest =
  GetHeight :: "64 word"
  GetTime :: int
  GetTxs :: "bytes option list option"

text \<open>\<^verbatim>\<open>len\<close> of a slice that may be nil, and the bounds-checked read \<^verbatim>\<open>xs[i]\<close>.\<close>

definition len :: "'a list option \<Rightarrow> nat" where
  "len xs = (case xs of None \<Rightarrow> 0 | Some ys \<Rightarrow> length ys)"

definition index :: "'a list option \<Rightarrow> nat \<Rightarrow> 'a outcome" where
  "index xs i =
     (case xs of
        None \<Rightarrow> Panic
      | Some ys \<Rightarrow> if i < length ys then Return (ys ! i) else Panic)"

text \<open>
  \<^verbatim>\<open>bzIndex\<close> is a \<^verbatim>\<open>uint\<close> and is compared with \<^verbatim>\<open>uint(len(txs))\<close>; the length of a
  slice is never negative, so the conversion keeps its value and both are natural numbers
  here. The SSZ decoder \<^verbatim>\<open>BeaconBlockFromSSZ\<close> belongs to another package and is a
  parameter.
\<close>

definition ReadOnlyBeaconBlockFromABCIRequest ::
  "(bytes \<Rightarrow> Version \<Rightarrow> 'blk option \<times> error option) \<Rightarrow>
   ABCIRequest option \<Rightarrow> nat \<Rightarrow> Version \<Rightarrow> ('blk option \<times> error option) outcome" where
  "ReadOnlyBeaconBlockFromABCIRequest BeaconBlockFromSSZ req bzIndex forkVersion =
     (case req of
        None \<Rightarrow> Return (None, Some ErrNilABCIRequest)
      | Some r \<Rightarrow>
          (let txs = GetTxs r; lenTxs = len txs in
           if txs = None \<or> lenTxs = 0 then Return (None, Some ErrNoBeaconBlockInRequest)
           else if bzIndex \<ge> len txs then Return (None, Some ErrBzIndexOutOfBounds)
           else
             (case index txs bzIndex of
                Panic \<Rightarrow> Panic
              | Return blkBz \<Rightarrow>
                  (case blkBz of
                     None \<Rightarrow> Return (None, Some ErrNilBeaconBlockInRequest)
                   | Some bz \<Rightarrow> Return (BeaconBlockFromSSZ bz forkVersion)))))"

text \<open>
  \<^verbatim>\<open>GetBlobSideCars\<close> repeats the checks and decodes with \<^verbatim>\<open>UnmarshalSSZ\<close>, which
  fills a fresh \<^verbatim>\<open>BlobSidecars\<close> value and reports an error: a parameter giving both.
\<close>

definition GetBlobSideCars ::
  "(bytes \<Rightarrow> 'sc \<times> error option) \<Rightarrow>
   ABCIRequest option \<Rightarrow> nat \<Rightarrow> ('sc option \<times> error option) outcome" where
  "GetBlobSideCars UnmarshalSSZ req bzIndex =
     (case req of
        None \<Rightarrow> Return (None, Some ErrNilABCIRequest)
      | Some r \<Rightarrow>
          (let txs = GetTxs r; lenTxs = len txs in
           if txs = None \<or> lenTxs = 0 then Return (None, Some ErrNoBeaconBlockInRequest)
           else if bzIndex \<ge> len txs then Return (None, Some ErrBzIndexOutOfBounds)
           else
             (case index txs bzIndex of
                Panic \<Rightarrow> Panic
              | Return sidecarBz \<Rightarrow>
                  (case sidecarBz of
                     None \<Rightarrow> Return (None, Some ErrNilBeaconBlockInRequest)
                   | Some bz \<Rightarrow>
                       (let (sidecars, err) = UnmarshalSSZ bz in
                        if err \<noteq> None then Return (None, err)
                        else Return (Some sidecars, None))))))"

section \<open>The validator service: payload retrieval and state preparation\<close>

type_synonym Root = "256 word"
type_synonym ExecutionHash = "256 word"

record ExecutionPayloadHeader =
  GetBlockHash :: ExecutionHash
  GetParentHash :: ExecutionHash

record BeaconBlock =
  GetSlot :: Slot
  GetParentBlockRoot :: Root
  HashTreeRoot :: Root
  GetTimestamp :: "64 word"

text \<open>
  The collaborators a \<^verbatim>\<open>validator.Service\<close> calls: the beacon state's accessors
  (\<^verbatim>\<open>st.GetSlot\<close>, \<^verbatim>\<open>st.GetLatestExecutionPayloadHeader\<close>), the state processor and
  the local builder. Each returns Go's pair of a value and an error; the state processor
  mutates the state it is given, so it returns the state it leaves behind.
\<close>

record ('st, 'env) ValidatorService =
  st_GetSlot :: "'st \<Rightarrow> Slot \<times> error option"
  st_GetLatestExecutionPayloadHeader :: "'st \<Rightarrow> ExecutionPayloadHeader \<times> error option"
  stateProcessor_ProcessSlot :: "'st \<Rightarrow> 'st \<times> error option"
  localBuilder_RetrieveOrBuildPayload ::
    "'st \<Rightarrow> Slot \<Rightarrow> Root \<Rightarrow> ExecutionHash \<Rightarrow> 'env option \<times> error option"

definition RetrievePayload ::
  "('st, 'env) ValidatorService \<Rightarrow> 'st \<Rightarrow> BeaconBlock \<Rightarrow> 'env option \<times> error option" where
  "RetrievePayload s st blk =
     (let (parentExecutionPayload, err) = st_GetLatestExecutionPayloadHeader s st in
      if err \<noteq> None then (None, err)
      else
        (let (envelope, err) =
               localBuilder_RetrieveOrBuildPayload s st (GetSlot blk) (GetParentBlockRoot blk)
                 (GetBlockHash parentExecutionPayload)
         in if err \<noteq> None then (None, err)
            else if envelope = None then (None, Some ErrNilPayload)
            else (envelope, None)))"

text \<open>
  \<^verbatim>\<open>slotDifference := requestedSlot - stateSlot\<close> is a subtraction of unsigned 64-bit
  slots and wraps around; the three cases of the \<^verbatim>\<open>switch\<close> are tried in the source's
  order, and a \<^verbatim>\<open>switch\<close> none of whose cases applies falls through to
  \<^verbatim>\<open>return nil\<close>. The result is the state as the call leaves it, and the error.
\<close>

definition prepareStateForBuilding ::
  "('st, 'env) ValidatorService \<Rightarrow> 'st \<Rightarrow> Slot \<Rightarrow> 'st \<times> error option" where
  "prepareStateForBuilding s st requestedSlot =
     (let (stateSlot, err) = st_GetSlot s st in
      if err \<noteq> None then (st, err)
      else
        (let slotDifference = requestedSlot - stateSlot in
         if slotDifference = 1 then
           (let (st', err) = stateProcessor_ProcessSlot s st in
            if err \<noteq> None then (st', err)
            else
              (let (stateSlot, err) = st_GetSlot s st' in
               if err \<noteq> None then (st', err)
               else if requestedSlot \<noteq> stateSlot then
                 (st', Some (Newf
                    ''requested slot could not be processed, requested: %d, state: %d''
                    [requestedSlot, stateSlot]))
               else (st', None)))
         else if slotDifference > 1 then
           (st, Some (Newf ''requested slot is too far ahead, requested: %d, state: %d''
                  [requestedSlot, stateSlot]))
         else if slotDifference < 1 then
           (st, Some (Newf ''requested slot is in the past, requested: %d, state: %d''
                  [requestedSlot, stateSlot]))
         else (st, None)))"

section \<open>The blockchain service: forkchoice updates after a block\<close>

record ForkchoiceStateV1 =
  HeadBlockHash :: ExecutionHash
  SafeBlockHash :: ExecutionHash
  FinalizedBlockHash :: ExecutionHash

record 'attrs ForkchoiceUpdateRequest =
  State :: ForkchoiceStateV1
  PayloadAttributes :: "'attrs option"
  ForkVersion :: Version

text \<open>
  Modelled from the spec: \<^verbatim>\<open>engineprimitives.BuildForkchoiceUpdateRequestNoAttrs\<close> is
  not among the sources. The forkchoice update "without attributes" is the request that
  holds the given forkchoice state and fork version and no payload attributes.
\<close>

definition BuildForkchoiceUpdateRequestNoAttrs ::
  "ForkchoiceStateV1 \<Rightarrow> Version \<Rightarrow> 'attrs ForkchoiceUpdateRequest" where
  "BuildForkchoiceUpdateRequestNoAttrs state forkVersion =
     \<lparr>State = state, PayloadAttributes = None, ForkVersion = forkVersion\<rparr>"

record ConsensusBlock =
  GetBeaconBlock :: BeaconBlock
  GetConsensusBlockTime :: "64 word"

text \<open>
  What the service does to the outside: a call of the execution engine's
  \<^verbatim>\<open>NotifyForkchoiceUpdate\<close>, a call of the local builder's \<^verbatim>\<open>RequestPayloadAsync\<close>
  (slot, timestamp, previous block root, head and parent execution hash), a line of the
  error log.
\<close>

datatype 'attrs effect =
    NotifyForkchoiceUpdate "'attrs ForkchoiceUpdateRequest"
  | RequestPayloadAsync Slot "64 word" Root ExecutionHash ExecutionHash
  | LogError string "error option"

record ('st, 'attrs) BlockchainService =
  bst_GetLatestExecutionPayloadHeader :: "'st \<Rightarrow> ExecutionPayloadHeader \<times> error option"
  bst_Copy :: "'st \<Rightarrow> 'st"
  shouldBuildOptimisticPayloads :: bool
  localBuilder_Enabled :: bool
  stateProcessor_ProcessSlots :: "'st \<Rightarrow> Slot \<Rightarrow> 'st \<times> error option"
  payloadtime_Next :: "64 word \<Rightarrow> 64 word \<Rightarrow> 64 word"
  localBuilder_RequestPayloadAsync ::
    "'st \<Rightarrow> Slot \<Rightarrow> 64 word \<Rightarrow> Root \<Rightarrow> ExecutionHash \<Rightarrow> ExecutionHash \<Rightarrow> error option"
  executionEngine_NotifyForkchoiceUpdate :: "'attrs ForkchoiceUpdateRequest \<Rightarrow> error option"
  chainSpec_ActiveForkVersionForSlot :: "Slot \<Rightarrow> Version"

definition sendNextFCUWithAttributes ::
  "('st, 'attrs) BlockchainService \<Rightarrow> 'st \<Rightarrow> ConsensusBlock \<Rightarrow> ExecutionPayloadHeader \<Rightarrow>
   'attrs effect list" where
  "sendNextFCUWithAttributes s st consensusBlk lph =
     (let blk = GetBeaconBlock consensusBlk;
          (stCopy, err) = stateProcessor_ProcessSlots s (bst_Copy s st) (GetSlot blk + 1)
      in if err \<noteq> None then
           [LogError ''failed to process slots in non-optimistic payload'' err]
         else
           (let prevBlockRoot = HashTreeRoot blk;
                payloadTime = GetTimestamp blk;
                nextTime = payloadtime_Next s payloadTime (GetConsensusBlockTime consensusBlk);
                err = localBuilder_RequestPayloadAsync s stCopy (GetSlot blk + 1) nextTime
                        prevBlockRoot (GetBlockHash lph) (GetParentHash lph)
            in RequestPayloadAsync (GetSlot blk + 1) nextTime prevBlockRoot
                 (GetBlockHash lph) (GetParentHash lph)
               # (if err \<noteq> None then
                    [LogError
                       ''failed to send forkchoice update with attributes in non-optimistic payload''
                       err]
                  else [])))"

definition sendNextFCUWithoutAttributes ::
  "('st, 'attrs) BlockchainService \<Rightarrow> ConsensusBlock \<Rightarrow> ExecutionPayloadHeader \<Rightarrow>
   'attrs effect list" where
  "sendNextFCUWithoutAttributes s consensusBlk lph =
     (let blk = GetBeaconBlock consensusBlk;
          request = BuildForkchoiceUpdateRequestNoAttrs
                      \<lparr>HeadBlockHash = GetBlockHash lph,
                       SafeBlockHash = GetParentHash lph,
                       FinalizedBlockHash = GetParentHash lph\<rparr>
                      (chainSpec_ActiveForkVersionForSlot s (GetSlot blk));
          err = executionEngine_NotifyForkchoiceUpdate s request
      in NotifyForkchoiceUpdate request
         # (if err \<noteq> None then
              [LogError ''failed to send forkchoice update without attributes'' err]
            else []))"

definition sendPostBlockFCU ::
  "('st, 'attrs) BlockchainService \<Rightarrow> 'st \<Rightarrow> ConsensusBlock \<Rightarrow> 'attrs effect list" where
  "sendPostBlockFCU s st consensusBlk =
     (let (lph, err) = bst_GetLatestExecutionPayloadHeader s st in
      if err \<noteq> None then
        [LogError ''failed to get latest execution payload in postBlockProcess'' err]
      else if \<not> shouldBuildOptimisticPayloads s \<and> localBuilder_Enabled s then
        sendNextFCUWithAttributes s st consensusBlk lph
      else sendNextFCUWithoutAttributes s consensusBlk lph)"

section \<open>The ABCI middleware (\<^verbatim>\<open>mod/runtime/pkg/middleware/abci.go\<close>)\<close>

subsection \<open>Errors and their two tiers\<close>

text \<open>
  Modelled from the spec: the package \<^verbatim>\<open>mod/errors\<close> is not among the sources. The
  spec's taxonomy has two tiers; a non-fatal error is one "wrapped as NonFatal", the
  absence of an error is not fatal, and every other error is fatal.
\<close>

definition WrapNonFatal :: "error \<Rightarrow> error" where
  "WrapNonFatal err = NonFatal err"

fun IsFatal :: "error option \<Rightarrow> bool" where
  "IsFatal None = False"
| "IsFatal (Some (NonFatal e)) = False"
| "IsFatal (Some e) = True"

subsection \<open>Messages and the dispatcher\<close>

text \<open>
  \<^verbatim>\<open>asynctypes.Message\<close> is the reply envelope: \<^verbatim>\<open>Data()\<close> and \<^verbatim>\<open>Error()\<close> read its two
  fields. The topics are the constants of package \<^verbatim>\<open>messages\<close>.
\<close>

record 'd Message =
  Data :: 'd
  Error :: "error option"

datatype topic =
    ProcessGenesisData
  | BuildBeaconBlockAndSidecars
  | VerifyBeaconBlock
  | VerifySidecars
  | ProcessSidecars
  | FinalizeBeaconBlock

text \<open>
  Modelled from the spec: the dispatcher (package \<^verbatim>\<open>mod/async\<close>) is not among the sources.
  \<^verbatim>\<open>dispatcher.Request(msg, &resp)\<close> hands the message to the one responder registered
  for its topic and blocks until the responder returns. It returns an error and may store
  a reply envelope through the pointer it is given; the caller's variable starts out nil
  and stays nil when nothing is stored. A responder is therefore a function of the payload
  and of the state of the services behind the dispatcher (the world \<open>'w\<close>), giving the
  returned error, the envelope stored if any, and the world it leaves behind.
\<close>

type_synonym ('w, 'a, 'r) responder =
  "'a \<Rightarrow> 'w \<Rightarrow> (error option \<times> 'r Message option) \<times> 'w"

record ('blk, 'sc) BeaconBlockBundle =
  bundle_GetBeaconBlock :: 'blk
  GetSidecars :: 'sc

type_synonym 'vu ValidatorUpdates = "'vu list option"

record ('w, 'sd, 'blk, 'sc, 'vu) Dispatcher =
  on_BuildBeaconBlockAndSidecars :: "('w, 'sd, ('blk, 'sc) BeaconBlockBundle) responder"
  on_VerifyBeaconBlock :: "('w, 'blk, 'blk) responder"
  on_VerifySidecars :: "('w, 'sc, 'sc) responder"
  on_ProcessSidecars :: "('w, 'sc, 'sc) responder"
  on_FinalizeBeaconBlock :: "('w, 'blk, 'vu ValidatorUpdates) responder"

text \<open>
  The middleware's own mutable state: the request stored by \<^verbatim>\<open>PreBlock\<close> (\<^verbatim>\<open>h.req\<close>, nil
  until then). Next to it the run carries the world behind the dispatcher and the list of
  topics requested so far, oldest first.
\<close>

record 'w run =
  world :: 'w
  issued :: "topic list"
  req :: "ABCIRequest option"

text \<open>
  Modelled from the spec: \<^verbatim>\<open>dispatcher.Request\<close> is not among the sources. The request
  is served by the responder in the current world, synchronously, and its topic is added
  to the list of topics requested.
\<close>

definition Request ::
  "topic \<Rightarrow> ('w, 'a, 'r) responder \<Rightarrow> 'a \<Rightarrow> 'w run \<Rightarrow>
   (error option \<times> 'r Message option) \<times> 'w run" where
  "Request t respond a s =
     (let (res, w') = respond a (world s)
      in (res, s\<lparr>world := w', issued := issued s @ [t]\<rparr>))"

subsection \<open>The middleware\<close>

text \<open>
  The messages the consensus engine passes as \<^verbatim>\<open>proto.Message\<close>: a pointer to a
  \<^verbatim>\<open>ProcessProposalRequest\<close> or to a \<^verbatim>\<open>FinalizeBlockRequest\<close> (either may be a nil
  pointer), or a message of another type.
\<close>

datatype proto_Message =
    ProcessProposalRequest "ABCIRequest option"
  | FinalizeBlockRequest "ABCIRequest option"
  | OtherMessage string

datatype ProcessProposalStatus =
    PROCESS_PROPOSAL_STATUS_UNKNOWN
  | PROCESS_PROPOSAL_STATUS_ACCEPT
  | PROCESS_PROPOSAL_STATUS_REJECT

record ProcessProposalResponse =
  Status :: ProcessProposalStatus

text \<open>
  Modelled from the spec: the constants \<^verbatim>\<open>BeaconBlockTxIndex\<close> and
  \<^verbatim>\<open>BlobSidecarsTxIndex\<close> are declared outside the sources; the spec fixes them as
  \<^verbatim>\<open>txs[0]\<close> for the beacon block and \<^verbatim>\<open>txs[1]\<close> for the blob sidecars.
\<close>

definition BeaconBlockTxIndex :: nat where
  "BeaconBlockTxIndex = 0"

definition BlobSidecarsTxIndex :: nat where
  "BlobSidecarsTxIndex = 1"

text \<open>
  The collaborators of the middleware: the dispatcher, the two gossipers (publish a value
  and get its bytes; read a value out of a request), the chain spec, and
  \<^verbatim>\<open>encoding.ExtractBlobsAndBlockFromRequest\<close>, which lives in another package and is a
  parameter. The metrics calls only measure time and are left out.
\<close>

record ('w, 'sd, 'blk, 'sc, 'vu) ABCIMiddleware =
  dispatcher :: "('w, 'sd, 'blk, 'sc, 'vu) Dispatcher"
  beaconBlockGossiper_Publish :: "'blk \<Rightarrow> bytes option \<times> error option"
  beaconBlockGossiper_Request :: "ABCIRequest option \<Rightarrow> 'blk \<times> error option"
  blobGossiper_Publish :: "'sc \<Rightarrow> bytes option \<times> error option"
  blobGossiper_Request :: "ABCIRequest option \<Rightarrow> 'sc \<times> error option"
  ActiveForkVersionForSlot :: "Slot \<Rightarrow> Version"
  ExtractBlobsAndBlockFromRequest ::
    "ABCIRequest option \<Rightarrow> nat \<Rightarrow> nat \<Rightarrow> Version \<Rightarrow> 'blk \<times> 'sc \<times> error option"

text \<open>
  \<^verbatim>\<open>handleBeaconBlockBundleResponse\<close> starts with \<^verbatim>\<open>bbbResp.Error()\<close>, a field read
  through the envelope pointer: with a nil pointer the call panics.
\<close>

definition handleBeaconBlockBundleResponse ::
  "('w, 'sd, 'blk, 'sc, 'vu) ABCIMiddleware \<Rightarrow> ('blk, 'sc) BeaconBlockBundle Message option \<Rightarrow>
   (bytes option \<times> bytes option \<times> error option) outcome" where
  "handleBeaconBlockBundleResponse h bbbResp =
     (case bbbResp of
        None \<Rightarrow> Panic
      | Some m \<Rightarrow>
          if Error m \<noteq> None then Return (None, None, Error m)
          else
            (let (bbBz, bbErr) = beaconBlockGossiper_Publish h (bundle_GetBeaconBlock (Data m)) in
             if bbErr \<noteq> None then Return (None, None, bbErr)
             else
               (let (scBz, scErr) = blobGossiper_Publish h (GetSidecars (Data m)) in
                if scErr \<noteq> None then Return (None, None, scErr)
                else Return (bbBz, scBz, None))))"

definition PrepareProposal ::
  "('w, 'sd, 'blk, 'sc, 'vu) ABCIMiddleware \<Rightarrow> 'sd \<Rightarrow> 'w run \<Rightarrow>
   (bytes option \<times> bytes option \<times> error option) outcome \<times> 'w run" where
  "PrepareProposal h slotData s =
     (let ((err, beaconBlkBundleResp), s1) =
            Request BuildBeaconBlockAndSidecars
              (on_BuildBeaconBlockAndSidecars (dispatcher h)) slotData s
      in if err \<noteq> None then (Return (None, None, err), s1)
         else (handleBeaconBlockBundleResponse h beaconBlkBundleResp, s1))"

definition createProcessProposalResponse ::
  "error option \<Rightarrow> ProcessProposalResponse option \<times> error option" where
  "createProcessProposalResponse err =
     (let status = PROCESS_PROPOSAL_STATUS_REJECT in
      if \<not> IsFatal err then (Some \<lparr>Status = PROCESS_PROPOSAL_STATUS_ACCEPT\<rparr>, None)
      else (Some \<lparr>Status = status\<rparr>, err))"

text \<open>
  In \<^verbatim>\<open>ProcessProposal\<close> the value returned by \<^verbatim>\<open>dispatcher.Request\<close> is dropped; what
  is read next is \<^verbatim>\<open>Error()\<close> of the envelope, through a pointer that is nil when the
  dispatcher stored nothing.
\<close>

definition ProcessProposal ::
  "('w, 'sd, 'blk, 'sc, 'vu) ABCIMiddleware \<Rightarrow> proto_Message \<Rightarrow> 'w run \<Rightarrow>
   (ProcessProposalResponse option \<times> error option) outcome \<times> 'w run" where
  "ProcessProposal h request s =
     (case request of
        ProcessProposalRequest abciReq \<Rightarrow>
          (case beaconBlockGossiper_Request h abciReq of
             (blk, Some err) \<Rightarrow>
               (Return (createProcessProposalResponse (Some (WrapNonFatal err))), s)
           | (blk, None) \<Rightarrow>
               (let ((_, beaconBlockResp), s1) =
                      Request VerifyBeaconBlock (on_VerifyBeaconBlock (dispatcher h)) blk s
                in case beaconBlockResp of
                     None \<Rightarrow> (Panic, s1)
                   | Some m1 \<Rightarrow>
                       if Error m1 \<noteq> None then
                         (Return (createProcessProposalResponse (Error m1)), s1)
                       else
                         (case blobGossiper_Request h abciReq of
                            (sidecars, Some err) \<Rightarrow>
                              (Return (createProcessProposalResponse (Some (WrapNonFatal err))),
                               s1)
                          | (sidecars, None) \<Rightarrow>
                              (let ((_, sidecarsResp), s2) =
                                     Request VerifySidecars
                                       (on_VerifySidecars (dispatcher h)) sidecars s1
                               in case sidecarsResp of
                                    None \<Rightarrow> (Panic, s2)
                                  | Some m2 \<Rightarrow>
                                      if Error m2 \<noteq> None then
                                        (Return (createProcessProposalResponse (Error m2)), s2)
                                      else (Return (createProcessProposalResponse None), s2)))))
      | _ \<Rightarrow> (Return (None, Some ErrInvalidProcessProposalRequestType), s))"

definition PreBlock :: "proto_Message \<Rightarrow> 'w run \<Rightarrow> error option \<times> 'w run" where
  "PreBlock request s =
     (case request of
        FinalizeBlockRequest abciReq \<Rightarrow> (None, s\<lparr>req := abciReq\<rparr>)
      | _ \<Rightarrow> (Some ErrInvalidFinalizeBlockRequestType, s))"

text \<open>
  \<^verbatim>\<open>EndBlock\<close> reads \<^verbatim>\<open>h.req.Height\<close> while it builds the arguments of the extraction, so
  a nil \<^verbatim>\<open>h.req\<close> panics before anything else happens. \<^verbatim>\<open>math.Slot(h.req.Height)\<close>
  reinterprets the 64 bits of the height.
\<close>

definition EndBlock ::
  "('w, 'sd, 'blk, 'sc, 'vu) ABCIMiddleware \<Rightarrow> 'w run \<Rightarrow>
   ('vu ValidatorUpdates \<times> error option) outcome \<times> 'w run" where
  "EndBlock h s =
     (case req s of
        None \<Rightarrow> (Panic, s)
      | Some r \<Rightarrow>
          (let (blk, blobs, err) =
                 ExtractBlobsAndBlockFromRequest h (req s) BeaconBlockTxIndex BlobSidecarsTxIndex
                   (ActiveForkVersionForSlot h (GetHeight r))
           in if err \<noteq> None then (Return (None, None), s)
              else
                (let ((_, sidecarsResp), s1) =
                       Request ProcessSidecars (on_ProcessSidecars (dispatcher h)) blobs s
                 in case sidecarsResp of
                      None \<Rightarrow> (Panic, s1)
                    | Some m1 \<Rightarrow>
                        if Error m1 \<noteq> None then (Return (None, Error m1), s1)
                        else
                          (let ((_, valUpdatesResp), s2) =
                                 Request FinalizeBeaconBlock
                                   (on_FinalizeBeaconBlock (dispatcher h)) blk s1
                           in case valUpdatesResp of
                                None \<Rightarrow> (Panic, s2)
                              | Some m2 \<Rightarrow> (Return (Data m2, Error m2), s2)))))"

section \<open>Concrete instances\<close>

text \<open>Inputs on which the definitions are run in the examples that follow the theorems.\<close>

definition twoTxRequest :: ABCIRequest where
  "twoTxRequest = \<lparr>GetHeight = 7, GetTime = 0, GetTxs = Some [Some [1, 2], None]\<rparr>"

definition noTxRequest :: ABCIRequest where
  "noTxRequest = \<lparr>GetHeight = 7, GetTime = 0, GetTxs = None\<rparr>"

definition idBlockFromSSZ :: "bytes \<Rightarrow> Version \<Rightarrow> bytes option \<times> error option" where
  "idBlockFromSSZ bz v = (Some bz, None)"

definition idUnmarshalSSZ :: "bytes \<Rightarrow> bytes \<times> error option" where
  "idUnmarshalSSZ bz = (bz, None)"

definition block5 :: BeaconBlock where
  "block5 = \<lparr>GetSlot = 5, GetParentBlockRoot = 11, HashTreeRoot = 12, GetTimestamp = 100\<rparr>"

definition header4 :: ExecutionPayloadHeader where
  "header4 = \<lparr>GetBlockHash = 44, GetParentHash = 33\<rparr>"

text \<open>
  Validator services over a state that is just its slot: the processor advances it by one,
  the builder holds payload 9 for slot 5, nothing for any other slot, and fails in the
  second service.
\<close>

definition slotService :: "(Slot, nat) ValidatorService" where
  "slotService =
     \<lparr>st_GetSlot = (\<lambda>st. (st, None)),
      st_GetLatestExecutionPayloadHeader = (\<lambda>st. (header4, None)),
      stateProcessor_ProcessSlot = (\<lambda>st. (st + 1, None)),
      localBuilder_RetrieveOrBuildPayload =
        (\<lambda>st slot root hash. (if slot = 5 then Some 9 else None, None))\<rparr>"

definition failingBuilderService :: "(Slot, nat) ValidatorService" where
  "failingBuilderService =
     slotService\<lparr>localBuilder_RetrieveOrBuildPayload :=
       (\<lambda>st slot root hash. (None, Some (External ''payload build failed'')))\<rparr>"

text \<open>
  A blockchain service whose local builder is disabled, so that the forkchoice update after
  a block goes out without attributes.
\<close>

definition finalizedModeService :: "(Slot, nat) BlockchainService" where
  "finalizedModeService =
     \<lparr>bst_GetLatestExecutionPayloadHeader = (\<lambda>st. (header4, None)),
      bst_Copy = (\<lambda>st. st),
      shouldBuildOptimisticPayloads = False,
      localBuilder_Enabled = False,
      stateProcessor_ProcessSlots = (\<lambda>st slot. (slot, None)),
      payloadtime_Next = (\<lambda>payloadTime consensusTime. consensusTime + 1),
      localBuilder_RequestPayloadAsync = (\<lambda>st slot t root head parent. None),
      executionEngine_NotifyForkchoiceUpdate = (\<lambda>request. None),
      chainSpec_ActiveForkVersionForSlot = (\<lambda>slot. 1)\<rparr>"

definition consensusBlock5 :: ConsensusBlock where
  "consensusBlock5 = \<lparr>GetBeaconBlock = block5, GetConsensusBlockTime = 101\<rparr>"

text \<open>
  A middleware over a world that counts the requests served. Every responder answers with
  an envelope; \<open>okReply\<close> carries no error, \<open>errReply\<close> carries the given one.
\<close>

definition okReply :: "'d \<Rightarrow> nat \<Rightarrow> (error option \<times> 'd Message option) \<times> nat" where
  "okReply d w = ((None, Some \<lparr>Data = d, Error = None\<rparr>), Suc w)"

definition errReply :: "error \<Rightarrow> 'd \<Rightarrow> nat \<Rightarrow> (error option \<times> 'd Message option) \<times> nat" where
  "errReply e d w = ((None, Some \<lparr>Data = d, Error = Some e\<rparr>), Suc w)"

definition okDispatcher :: "(nat, nat, nat, nat, nat) Dispatcher" where
  "okDispatcher =
     \<lparr>on_BuildBeaconBlockAndSidecars =
        (\<lambda>slotData. okReply \<lparr>bundle_GetBeaconBlock = 3, GetSidecars = 4\<rparr>),
      on_VerifyBeaconBlock = okReply,
      on_VerifySidecars = okReply,
      on_ProcessSidecars = okReply,
      on_FinalizeBeaconBlock = (\<lambda>blk. okReply (Some [blk]))\<rparr>"

definition okMiddleware :: "(nat, nat, nat, nat, nat) ABCIMiddleware" where
  "okMiddleware =
     \<lparr>dispatcher = okDispatcher,
      beaconBlockGossiper_Publish = (\<lambda>blk. (Some [3], None)),
      beaconBlockGossiper_Request = (\<lambda>abciReq. (3, None)),
      blobGossiper_Publish = (\<lambda>sidecars. (Some [4], None)),
      blobGossiper_Request = (\<lambda>abciReq. (4, None)),
      ActiveForkVersionForSlot = (\<lambda>slot. 1),
      ExtractBlobsAndBlockFromRequest =
        (\<lambda>request blkIndex blobsIndex version.
           case request of
             None \<Rightarrow> (0, 0, Some ErrNilABCIRequest)
           | Some r \<Rightarrow>
               if blobsIndex < len (GetTxs r) then (3, 4, None)
               else (0, 0, Some ErrNoBeaconBlockInRequest))\<rparr>"

definition rejectingMiddleware :: "(nat, nat, nat, nat, nat) ABCIMiddleware" where
  "rejectingMiddleware =
     okMiddleware\<lparr>dispatcher :=
       okDispatcher\<lparr>on_VerifyBeaconBlock := errReply (External ''invalid state root'')\<rparr>\<rparr>"

definition timeoutMiddleware :: "(nat, nat, nat, nat, nat) ABCIMiddleware" where
  "timeoutMiddleware =
     okMiddleware\<lparr>dispatcher :=
       okDispatcher\<lparr>on_VerifySidecars := errReply (NonFatal (External ''timeout''))\<rparr>\<rparr>"

definition malformedMiddleware :: "(nat, nat, nat, nat, nat) ABCIMiddleware" where
  "malformedMiddleware =
     okMiddleware\<lparr>beaconBlockGossiper_Request :=
       (\<lambda>abciReq. (0, Some (External ''malformed SSZ'')))\<rparr>"

definition malformedSidecarsMiddleware :: "(nat, nat, nat, nat, nat) ABCIMiddleware" where
  "malformedSidecarsMiddleware =
     okMiddleware\<lparr>blobGossiper_Request :=
       (\<lambda>abciReq. (0, Some (External ''malformed SSZ'')))\<rparr>"

text \<open>
  Dispatchers whose \<^verbatim>\<open>Request\<close> itself fails for one topic: it returns an error and
  stores no reply.
\<close>

definition sidecarRequestFailMiddleware :: "(nat, nat, nat, nat, nat) ABCIMiddleware" where
  "sidecarRequestFailMiddleware =
     okMiddleware\<lparr>dispatcher :=
       okDispatcher\<lparr>on_ProcessSidecars :=
         (\<lambda>blobs w. ((Some (External ''context cancelled''), None), w))\<rparr>\<rparr>"

definition finalizeRequestFailMiddleware :: "(nat, nat, nat, nat, nat) ABCIMiddleware" where
  "finalizeRequestFailMiddleware =
     okMiddleware\<lparr>dispatcher :=
       okDispatcher\<lparr>on_FinalizeBeaconBlock :=
         (\<lambda>blk w. ((Some (External ''context cancelled''), None), w))\<rparr>\<rparr>"

definition sidecarFailMiddleware :: "(nat, nat, nat, nat, nat) ABCIMiddleware" where
  "sidecarFailMiddleware =
     okMiddleware\<lparr>dispatcher :=
       okDispatcher\<lparr>on_ProcessSidecars := errReply (External ''store unavailable'')\<rparr>\<rparr>"

definition buildFailMiddleware :: "(nat, nat, nat, nat, nat) ABCIMiddleware" where
  "buildFailMiddleware =
     okMiddleware\<lparr>dispatcher :=
       okDispatcher\<lparr>on_BuildBeaconBlockAndSidecars :=
         (\<lambda>slotData w. ((Some (External ''no responder''), None), w))\<rparr>\<rparr>"

definition gossipFailMiddleware :: "(nat, nat, nat, nat, nat) ABCIMiddleware" where
  "gossipFailMiddleware =
     okMiddleware\<lparr>blobGossiper_Publish :=
       (\<lambda>sidecars. (Some [4], Some (External ''gossip failed'')))\<rparr>"

definition run0 :: "nat run" where
  "run0 = \<lparr>world = 0, issued = [], req = None\<rparr>"

section \<open>Hex string invariants: results\<close>

lemma has0xPrefix_ensure0xPrefix: "has0xPrefix (ensure0xPrefix s)"
  by (simp add: ensure0xPrefix_def has0xPrefix_def)

lemma ensure0xPrefix_idem: "ensure0xPrefix (ensure0xPrefix s) = ensure0xPrefix s"
  using has0xPrefix_ensure0xPrefix [of s] by (simp add: ensure0xPrefix_def)

lemma has0xPrefix_take2: "has0xPrefix t \<Longrightarrow> take 2 t = ''0x'' \<or> take 2 t = ''0X''"
proof -
  assume h: "has0xPrefix t"
  then obtain a b r where "t = a # b # r"
    by (cases t; cases "tl t") (auto simp: has0xPrefix_def)
  with h show ?thesis by (auto simp: has0xPrefix_def)
qed

text \<open>
  Claim C10. For every string \<open>s\<close>, \<^verbatim>\<open>ensureStringInvariants(s)\<close> has a 0x prefix in the
  sense of \<^verbatim>\<open>has0xPrefix\<close> (its first two bytes are \<^verbatim>\<open>0x\<close>, or \<^verbatim>\<open>0X\<close>, which
  \<^verbatim>\<open>has0xPrefix\<close> accepts as well); the empty string is mapped to \<^verbatim>\<open>0x0\<close>;
  \<^verbatim>\<open>ensure0xPrefix\<close> is idempotent and its result always satisfies \<^verbatim>\<open>has0xPrefix\<close>.
\<close>

theorem ensureStringInvariants_prefixed:
  "has0xPrefix (ensureStringInvariants s)
   \<and> (take 2 (ensureStringInvariants s) = ''0x'' \<or> take 2 (ensureStringInvariants s) = ''0X'')
   \<and> ensureStringInvariants [] = ''0x0''
   \<and> ensure0xPrefix (ensure0xPrefix s) = ensure0xPrefix s
   \<and> has0xPrefix (ensure0xPrefix s)"
proof -
  have a: "has0xPrefix (ensureStringInvariants s)"
    by (simp add: ensureStringInvariants_def has0xPrefix_ensure0xPrefix)
  have c: "ensureStringInvariants [] = ''0x0''"
    by (simp add: ensureStringInvariants_def ensure0xPrefix_def has0xPrefix_def)
  show ?thesis
    using a has0xPrefix_take2 [OF a] c ensure0xPrefix_idem has0xPrefix_ensure0xPrefix
    by blast
qed

theorem ensureStringInvariants_prefixed_witness:
  "has0xPrefix (ensureStringInvariants ''1f'')
   \<and> ensureStringInvariants ''1f'' = ''0x1f''
   \<and> ensureStringInvariants ''0Xab'' = ''0Xab''
   \<and> ensure0xPrefix (ensure0xPrefix ''1f'') = ''0x1f''"
  using ensureStringInvariants_prefixed [of "''1f''"]
  by (simp add: ensureStringInvariants_def ensure0xPrefix_def has0xPrefix_def)

section \<open>Reading a proposal out of an ABCI request: results\<close>

lemma index_in_range: "i < len xs \<Longrightarrow> \<exists>ys. xs = Some ys \<and> index xs i = Return (ys ! i)"
  by (cases xs) (simp_all add: len_def index_def)

lemma ReadOnlyBeaconBlockFromABCIRequest_no_panic:
  "ReadOnlyBeaconBlockFromABCIRequest dec rq i fv \<noteq> Panic"
proof (cases rq)
  case None
  then show ?thesis by (simp add: ReadOnlyBeaconBlockFromABCIRequest_def)
next
  case (Some q)
  show ?thesis
  proof (cases "i < len (GetTxs q)")
    case True
    from index_in_range [OF True] obtain ys where
      "GetTxs q = Some ys" "index (GetTxs q) i = Return (ys ! i)" by blast
    with Some True show ?thesis
      by (simp add: ReadOnlyBeaconBlockFromABCIRequest_def Let_def split: option.splits)
  next
    case False
    with Some show ?thesis
      by (simp add: ReadOnlyBeaconBlockFromABCIRequest_def Let_def)
  qed
qed

lemma GetBlobSideCars_no_panic: "GetBlobSideCars um rq i \<noteq> Panic"
proof (cases rq)
  case None
  then show ?thesis by (simp add: GetBlobSideCars_def)
next
  case (Some q)
  show ?thesis
  proof (cases "i < len (GetTxs q)")
    case True
    from index_in_range [OF True] obtain ys where
      "GetTxs q = Some ys" "index (GetTxs q) i = Return (ys ! i)" by blast
    with Some True show ?thesis
      by (simp add: GetBlobSideCars_def Let_def split: option.splits prod.splits)
  next
    case False
    with Some show ?thesis
      by (simp add: GetBlobSideCars_def Let_def)
  qed
qed

text \<open>
  Claim C7. Reading the beacon block or the blob sidecars out of an ABCI request always
  returns and never reads the transaction list out of bounds (no panic). The checks are
  made in this order: a nil request gives \<^verbatim>\<open>ErrNilABCIRequest\<close>; a nil or empty
  transaction list gives \<^verbatim>\<open>ErrNoBeaconBlockInRequest\<close>; on a non-empty list an index at or
  past its length gives \<^verbatim>\<open>ErrBzIndexOutOfBounds\<close>; a nil transaction at the index gives
  \<^verbatim>\<open>ErrNilBeaconBlockInRequest\<close>; any other transaction is handed to the decoder.
\<close>

theorem abci_extraction_total:
  "ReadOnlyBeaconBlockFromABCIRequest dec rq i fv \<noteq> Panic
   \<and> GetBlobSideCars um rq i \<noteq> Panic
   \<and> ReadOnlyBeaconBlockFromABCIRequest dec None i fv = Return (None, Some ErrNilABCIRequest)
   \<and> GetBlobSideCars um None i = Return (None, Some ErrNilABCIRequest)
   \<and> (GetTxs r = None \<or> GetTxs r = Some [] \<longrightarrow>
        ReadOnlyBeaconBlockFromABCIRequest dec (Some r) i fv
          = Return (None, Some ErrNoBeaconBlockInRequest)
        \<and> GetBlobSideCars um (Some r) i = Return (None, Some ErrNoBeaconBlockInRequest))
   \<and> (GetTxs r = Some txs \<and> txs \<noteq> [] \<and> length txs \<le> i \<longrightarrow>
        ReadOnlyBeaconBlockFromABCIRequest dec (Some r) i fv
          = Return (None, Some ErrBzIndexOutOfBounds)
        \<and> GetBlobSideCars um (Some r) i = Return (None, Some ErrBzIndexOutOfBounds))
   \<and> (GetTxs r = Some txs \<and> i < length txs \<and> txs ! i = None \<longrightarrow>
        ReadOnlyBeaconBlockFromABCIRequest dec (Some r) i fv
          = Return (None, Some ErrNilBeaconBlockInRequest)
        \<and> GetBlobSideCars um (Some r) i = Return (None, Some ErrNilBeaconBlockInRequest))
   \<and> (GetTxs r = Some txs \<and> i < length txs \<and> txs ! i = Some bz \<longrightarrow>
        ReadOnlyBeaconBlockFromABCIRequest dec (Some r) i fv = Return (dec bz fv)
        \<and> GetBlobSideCars um (Some r) i
            = Return (if snd (um bz) \<noteq> None then (None, snd (um bz))
                      else (Some (fst (um bz)), None)))"
proof -
  have p3: "ReadOnlyBeaconBlockFromABCIRequest dec None i fv
              = Return (None, Some ErrNilABCIRequest)"
    "GetBlobSideCars um None i = Return (None, Some ErrNilABCIRequest)"
    by (simp_all add: ReadOnlyBeaconBlockFromABCIRequest_def GetBlobSideCars_def)
  have p4: "GetTxs r = None \<or> GetTxs r = Some [] \<longrightarrow>
        ReadOnlyBeaconBlockFromABCIRequest dec (Some r) i fv
          = Return (None, Some ErrNoBeaconBlockInRequest)
        \<and> GetBlobSideCars um (Some r) i = Return (None, Some ErrNoBeaconBlockInRequest)"
    by (auto simp: ReadOnlyBeaconBlockFromABCIRequest_def GetBlobSideCars_def len_def Let_def)
  have p5: "GetTxs r = Some txs \<and> txs \<noteq> [] \<and> length txs \<le> i \<longrightarrow>
        ReadOnlyBeaconBlockFromABCIRequest dec (Some r) i fv
          = Return (None, Some ErrBzIndexOutOfBounds)
        \<and> GetBlobSideCars um (Some r) i = Return (None, Some ErrBzIndexOutOfBounds)"
    by (auto simp: ReadOnlyBeaconBlockFromABCIRequest_def GetBlobSideCars_def len_def Let_def)
  have p6: "GetTxs r = Some txs \<and> i < length txs \<and> txs ! i = None \<longrightarrow>
        ReadOnlyBeaconBlockFromABCIRequest dec (Some r) i fv
          = Return (None, Some ErrNilBeaconBlockInRequest)
        \<and> GetBlobSideCars um (Some r) i = Return (None, Some ErrNilBeaconBlockInRequest)"
    by (auto simp: ReadOnlyBeaconBlockFromABCIRequest_def GetBlobSideCars_def len_def
        index_def Let_def)
  have p7: "GetTxs r = Some txs \<and> i < length txs \<and> txs ! i = Some bz \<longrightarrow>
        ReadOnlyBeaconBlockFromABCIRequest dec (Some r) i fv = Return (dec bz fv)
        \<and> GetBlobSideCars um (Some r) i
            = Return (if snd (um bz) \<noteq> None then (None, snd (um bz))
                      else (Some (fst (um bz)), None))"
    by (auto simp: ReadOnlyBeaconBlockFromABCIRequest_def GetBlobSideCars_def len_def
        index_def Let_def split: prod.splits)
  from ReadOnlyBeaconBlockFromABCIRequest_no_panic GetBlobSideCars_no_panic p3 p4 p5 p6 p7
  show ?thesis by blast
qed

theorem abci_extraction_total_witness:
  "ReadOnlyBeaconBlockFromABCIRequest idBlockFromSSZ (Some noTxRequest) 0 0
     = Return (None, Some ErrNoBeaconBlockInRequest)
   \<and> GetBlobSideCars idUnmarshalSSZ (Some twoTxRequest) 2
     = Return (None, Some ErrBzIndexOutOfBounds)
   \<and> GetBlobSideCars idUnmarshalSSZ (Some twoTxRequest) 1
     = Return (None, Some ErrNilBeaconBlockInRequest)
   \<and> ReadOnlyBeaconBlockFromABCIRequest idBlockFromSSZ (Some twoTxRequest) 0 0
     = Return (Some [1, 2], None)"
  using
    abci_extraction_total [of idBlockFromSSZ "Some twoTxRequest" 0 0 idUnmarshalSSZ
      noTxRequest "[Some [1, 2], None]" "[1, 2]"]
    abci_extraction_total [of idBlockFromSSZ "Some twoTxRequest" 2 0 idUnmarshalSSZ
      twoTxRequest "[Some [1, 2], None]" "[1, 2]"]
    abci_extraction_total [of idBlockFromSSZ "Some twoTxRequest" 1 0 idUnmarshalSSZ
      twoTxRequest "[Some [1, 2], None]" "[1, 2]"]
    abci_extraction_total [of idBlockFromSSZ "Some twoTxRequest" 0 0 idUnmarshalSSZ
      twoTxRequest "[Some [1, 2], None]" "[1, 2]"]
  by (simp add: twoTxRequest_def noTxRequest_def idBlockFromSSZ_def idUnmarshalSSZ_def)

section \<open>Payload retrieval: results\<close>

text \<open>
  Claim C6, as the spec states it: a nil envelope without error from
  \<^verbatim>\<open>RetrieveOrBuildPayload\<close> makes \<^verbatim>\<open>RetrievePayload\<close> fail with \<^verbatim>\<open>ErrNilPayload\<close>, and
  in every other case a non-nil envelope is returned. The second half fails: when the
  builder itself reports an error the case is not "nil without error", and the envelope
  returned is nil.
\<close>

theorem RetrievePayload_counterexample:
  "localBuilder_RetrieveOrBuildPayload failingBuilderService 4 (GetSlot block5)
       (GetParentBlockRoot block5) (GetBlockHash header4) \<noteq> (None, None)
   \<and> RetrievePayload failingBuilderService 4 block5
       = (None, Some (External ''payload build failed''))"
  by (simp add: RetrievePayload_def failingBuilderService_def slotService_def block5_def
      header4_def)

text \<open>
  Claim C6, amended. When the latest execution payload header is read without error and
  \<^verbatim>\<open>RetrieveOrBuildPayload\<close> returns a nil envelope without error, \<^verbatim>\<open>RetrievePayload\<close>
  fails with \<^verbatim>\<open>ErrNilPayload\<close>; when it returns a non-nil envelope without error, that
  envelope is returned; an error from reading the header or from the builder is returned
  as it is, with a nil envelope. So a return without error always carries a non-nil
  envelope.
\<close>

theorem RetrievePayload_cases:
  "(st_GetLatestExecutionPayloadHeader s st = (hdr, None) \<and>
    localBuilder_RetrieveOrBuildPayload s st (GetSlot blk) (GetParentBlockRoot blk)
      (GetBlockHash hdr) = (None, None)
    \<longrightarrow> RetrievePayload s st blk = (None, Some ErrNilPayload))
   \<and> (st_GetLatestExecutionPayloadHeader s st = (hdr, None) \<and>
    localBuilder_RetrieveOrBuildPayload s st (GetSlot blk) (GetParentBlockRoot blk)
      (GetBlockHash hdr) = (Some env, None)
    \<longrightarrow> RetrievePayload s st blk = (Some env, None))
   \<and> (st_GetLatestExecutionPayloadHeader s st = (hdr, Some e)
    \<longrightarrow> RetrievePayload s st blk = (None, Some e))
   \<and> (st_GetLatestExecutionPayloadHeader s st = (hdr, None) \<and>
    localBuilder_RetrieveOrBuildPayload s st (GetSlot blk) (GetParentBlockRoot blk)
      (GetBlockHash hdr) = (envelope, Some e)
    \<longrightarrow> RetrievePayload s st blk = (None, Some e))
   \<and> (snd (RetrievePayload s st blk) = None \<longrightarrow> fst (RetrievePayload s st blk) \<noteq> None)"
proof -
  have nil_payload:
    "st_GetLatestExecutionPayloadHeader s st = (hdr, None) \<and>
     localBuilder_RetrieveOrBuildPayload s st (GetSlot blk) (GetParentBlockRoot blk)
       (GetBlockHash hdr) = (None, None)
     \<longrightarrow> RetrievePayload s st blk = (None, Some ErrNilPayload)"
    by (simp add: RetrievePayload_def)
  have found:
    "st_GetLatestExecutionPayloadHeader s st = (hdr, None) \<and>
     localBuilder_RetrieveOrBuildPayload s st (GetSlot blk) (GetParentBlockRoot blk)
       (GetBlockHash hdr) = (Some env, None)
     \<longrightarrow> RetrievePayload s st blk = (Some env, None)"
    by (simp add: RetrievePayload_def)
  have header_error:
    "st_GetLatestExecutionPayloadHeader s st = (hdr, Some e)
     \<longrightarrow> RetrievePayload s st blk = (None, Some e)"
    by (simp add: RetrievePayload_def)
  have builder_error:
    "st_GetLatestExecutionPayloadHeader s st = (hdr, None) \<and>
     localBuilder_RetrieveOrBuildPayload s st (GetSlot blk) (GetParentBlockRoot blk)
       (GetBlockHash hdr) = (envelope, Some e)
     \<longrightarrow> RetrievePayload s st blk = (None, Some e)"
    by (simp add: RetrievePayload_def)
  have success_non_nil:
    "snd (RetrievePayload s st blk) = None \<longrightarrow> fst (RetrievePayload s st blk) \<noteq> None"
  proof (cases "st_GetLatestExecutionPayloadHeader s st")
    case (Pair h0 herr)
    show ?thesis
    proof (cases "localBuilder_RetrieveOrBuildPayload s st (GetSlot blk)
                    (GetParentBlockRoot blk) (GetBlockHash h0)")
      case (Pair env0 berr)
      with \<open>st_GetLatestExecutionPayloadHeader s st = (h0, herr)\<close> show ?thesis
        by (cases herr; cases berr; cases env0) (simp_all add: RetrievePayload_def)
    qed
  qed
  from nil_payload found header_error builder_error success_non_nil show ?thesis
    by blast
qed

theorem RetrievePayload_cases_witness:
  "RetrievePayload slotService 4 block5 = (Some 9, None)
   \<and> RetrievePayload slotService 4 (block5\<lparr>GetSlot := 6\<rparr>) = (None, Some ErrNilPayload)
   \<and> RetrievePayload failingBuilderService 4 block5
       = (None, Some (External ''payload build failed''))"
  using
    RetrievePayload_cases [of slotService 4 header4 block5 9 "External ''x''" None]
    RetrievePayload_cases [of slotService 4 header4 "block5\<lparr>GetSlot := 6\<rparr>" 9
      "External ''x''" None]
    RetrievePayload_cases [of failingBuilderService 4 header4 block5 9
      "External ''payload build failed''" None]
  by (simp add: slotService_def failingBuilderService_def block5_def header4_def)

section \<open>State preparation: results\<close>

lemma word64_not_one: "(d::64 word) \<noteq> 1 \<Longrightarrow> d > 1 \<or> d < 1"
  by (metis word_less_1 not_less_iff_gr_or_eq)

lemma word64_one: "\<not> 1 < d \<Longrightarrow> r \<noteq> x \<Longrightarrow> d = r - x \<Longrightarrow> r - x = (1::64 word)"
  by (metis word64_not_one word_less_1 right_minus_eq)

lemma word64_before: "unat (r::64 word) < unat s \<Longrightarrow> r - s \<noteq> 1 \<Longrightarrow> r - s > 1"
  by (metis word64_not_one word_less_1 right_minus_eq less_irrefl)

lemma word64_wrap_one: "unat (r::64 word) < unat s \<Longrightarrow> r - s = 1 \<Longrightarrow> s = - 1"
  by (metis (no_types, lifting) diff_0_right minus_diff_eq
      verit_comp_simplify1(3) word_less_1 word_less_nat_alt word_sub_le_iff)

text \<open>
  Claim C4. \<^verbatim>\<open>prepareStateForBuilding\<close> succeeds only when
  \<^verbatim>\<open>requestedSlot - stateSlot == 1\<close> (the unsigned 64-bit difference the source
  computes): it then has processed exactly one slot and the state's slot equals the
  requested slot afterwards; and with that difference, a successful \<^verbatim>\<open>ProcessSlot\<close> that
  leaves the state at the requested slot makes it succeed. For every other difference it
  returns an error and leaves the state as it was. A requested slot equal to the state's
  slot is refused by the third case of the \<^verbatim>\<open>switch\<close>; an earlier one, whose difference
  has wrapped around to a value other than 1, by the second. So every requested slot at or
  before the state's slot is refused, as long as the state's slot is not the largest
  64-bit value (whose successor modulo \<open>2^64\<close> is slot 0, at difference 1).
\<close>

theorem prepareStateForBuilding_one_slot:
  "(prepareStateForBuilding s st requestedSlot = (st', None) \<longrightarrow>
      snd (st_GetSlot s st) = None
      \<and> requestedSlot - fst (st_GetSlot s st) = 1
      \<and> stateProcessor_ProcessSlot s st = (st', None)
      \<and> st_GetSlot s st' = (requestedSlot, None))
   \<and> (st_GetSlot s st = (stateSlot, None) \<and> requestedSlot - stateSlot = 1
      \<and> stateProcessor_ProcessSlot s st = (st1, None)
      \<and> st_GetSlot s st1 = (requestedSlot, None) \<longrightarrow>
      prepareStateForBuilding s st requestedSlot = (st1, None))
   \<and> (requestedSlot - fst (st_GetSlot s st) \<noteq> 1 \<longrightarrow>
      fst (prepareStateForBuilding s st requestedSlot) = st
      \<and> snd (prepareStateForBuilding s st requestedSlot) \<noteq> None)
   \<and> (st_GetSlot s st = (stateSlot, None) \<and> requestedSlot = stateSlot \<longrightarrow>
      prepareStateForBuilding s st requestedSlot =
        (st, Some (Newf ''requested slot is in the past, requested: %d, state: %d''
                     [requestedSlot, stateSlot])))
   \<and> (st_GetSlot s st = (stateSlot, None) \<and> unat requestedSlot < unat stateSlot
      \<and> requestedSlot - stateSlot \<noteq> 1 \<longrightarrow>
      prepareStateForBuilding s st requestedSlot =
        (st, Some (Newf ''requested slot is too far ahead, requested: %d, state: %d''
                     [requestedSlot, stateSlot])))
   \<and> (st_GetSlot s st = (stateSlot, None) \<and> unat requestedSlot \<le> unat stateSlot
      \<and> stateSlot \<noteq> - 1 \<longrightarrow>
      fst (prepareStateForBuilding s st requestedSlot) = st
      \<and> snd (prepareStateForBuilding s st requestedSlot) \<noteq> None)"
proof -
  have a: "prepareStateForBuilding s st requestedSlot = (st', None) \<longrightarrow>
      snd (st_GetSlot s st) = None
      \<and> requestedSlot - fst (st_GetSlot s st) = 1
      \<and> stateProcessor_ProcessSlot s st = (st', None)
      \<and> st_GetSlot s st' = (requestedSlot, None)"
  proof (cases "st_GetSlot s st")
    case (Pair sl er)
    with word64_not_one [of "requestedSlot - sl"] show ?thesis
      by (auto simp: prepareStateForBuilding_def Let_def split: prod.splits if_splits)
  qed
  have b: "st_GetSlot s st = (stateSlot, None) \<and> requestedSlot - stateSlot = 1
      \<and> stateProcessor_ProcessSlot s st = (st1, None)
      \<and> st_GetSlot s st1 = (requestedSlot, None) \<longrightarrow>
      prepareStateForBuilding s st requestedSlot = (st1, None)"
    by (auto simp: prepareStateForBuilding_def Let_def)
  have c: "requestedSlot - fst (st_GetSlot s st) \<noteq> 1 \<longrightarrow>
      fst (prepareStateForBuilding s st requestedSlot) = st
      \<and> snd (prepareStateForBuilding s st requestedSlot) \<noteq> None"
    by (auto simp: prepareStateForBuilding_def Let_def split: prod.splits
        intro: word64_one)
  have d: "st_GetSlot s st = (stateSlot, None) \<and> requestedSlot = stateSlot \<longrightarrow>
      prepareStateForBuilding s st requestedSlot =
        (st, Some (Newf ''requested slot is in the past, requested: %d, state: %d''
                     [requestedSlot, stateSlot]))"
    by (auto simp: prepareStateForBuilding_def Let_def)
  have e: "st_GetSlot s st = (stateSlot, None) \<and> unat requestedSlot < unat stateSlot
      \<and> requestedSlot - stateSlot \<noteq> 1 \<longrightarrow>
      prepareStateForBuilding s st requestedSlot =
        (st, Some (Newf ''requested slot is too far ahead, requested: %d, state: %d''
                     [requestedSlot, stateSlot]))"
    using word64_before [of requestedSlot stateSlot]
    by (auto simp: prepareStateForBuilding_def Let_def)
  have f: "st_GetSlot s st = (stateSlot, None) \<and> unat requestedSlot \<le> unat stateSlot
      \<and> stateSlot \<noteq> - 1 \<longrightarrow>
      fst (prepareStateForBuilding s st requestedSlot) = st
      \<and> snd (prepareStateForBuilding s st requestedSlot) \<noteq> None"
  proof
    assume h: "st_GetSlot s st = (stateSlot, None) \<and> unat requestedSlot \<le> unat stateSlot
      \<and> stateSlot \<noteq> - 1"
    have "requestedSlot - stateSlot \<noteq> 1"
    proof (cases "requestedSlot = stateSlot")
      case True
      then show ?thesis by simp
    next
      case False
      with h have "unat requestedSlot < unat stateSlot"
        by (metis le_neq_implies_less word_unat_eq_iff)
      with h word64_wrap_one [of requestedSlot stateSlot] show ?thesis by blast
    qed
    with h c show "fst (prepareStateForBuilding s st requestedSlot) = st
      \<and> snd (prepareStateForBuilding s st requestedSlot) \<noteq> None"
      by simp
  qed
  from a b c d e f show ?thesis by blast
qed

theorem prepareStateForBuilding_one_slot_witness:
  "prepareStateForBuilding slotService 4 5 = (5, None)
   \<and> prepareStateForBuilding slotService 4 7
       = (4, Some (Newf ''requested slot is too far ahead, requested: %d, state: %d'' [7, 4]))
   \<and> prepareStateForBuilding slotService 4 4
       = (4, Some (Newf ''requested slot is in the past, requested: %d, state: %d'' [4, 4]))
   \<and> prepareStateForBuilding slotService 4 3
       = (4, Some (Newf ''requested slot is too far ahead, requested: %d, state: %d'' [3, 4]))"
  using
    prepareStateForBuilding_one_slot [of slotService 4 5 5 4 5]
    prepareStateForBuilding_one_slot [of slotService 4 7 5 4 5]
    prepareStateForBuilding_one_slot [of slotService 4 4 5 4 5]
    prepareStateForBuilding_one_slot [of slotService 4 3 5 4 5]
  by (simp add: prepareStateForBuilding_def slotService_def)

section \<open>Forkchoice updates: results\<close>

text \<open>
  Claim C8. \<^verbatim>\<open>sendNextFCUWithoutAttributes\<close> notifies the execution engine exactly once,
  with a request that has no payload attributes, whose head is the block hash of the
  latest execution payload header and whose safe and finalized hashes are both that
  header's parent hash. Every forkchoice update that \<^verbatim>\<open>sendPostBlockFCU\<close> sends to the
  engine is of this form, for the header read from the state.
\<close>

theorem fcu_without_attributes:
  "(\<exists>logs. sendNextFCUWithoutAttributes s cb lph =
       NotifyForkchoiceUpdate
         \<lparr>State = \<lparr>HeadBlockHash = GetBlockHash lph, SafeBlockHash = GetParentHash lph,
                   FinalizedBlockHash = GetParentHash lph\<rparr>,
          PayloadAttributes = None,
          ForkVersion = chainSpec_ActiveForkVersionForSlot s (GetSlot (GetBeaconBlock cb))\<rparr>
       # logs
       \<and> (\<forall>rq. NotifyForkchoiceUpdate rq \<notin> set logs))
   \<and> (\<forall>rq. NotifyForkchoiceUpdate rq \<in> set (sendPostBlockFCU s st cb) \<longrightarrow>
         PayloadAttributes rq = None
         \<and> HeadBlockHash (State rq)
             = GetBlockHash (fst (bst_GetLatestExecutionPayloadHeader s st))
         \<and> SafeBlockHash (State rq)
             = GetParentHash (fst (bst_GetLatestExecutionPayloadHeader s st))
         \<and> FinalizedBlockHash (State rq)
             = GetParentHash (fst (bst_GetLatestExecutionPayloadHeader s st)))"
proof -
  have a: "\<exists>logs. sendNextFCUWithoutAttributes s cb lph =
       NotifyForkchoiceUpdate
         \<lparr>State = \<lparr>HeadBlockHash = GetBlockHash lph, SafeBlockHash = GetParentHash lph,
                   FinalizedBlockHash = GetParentHash lph\<rparr>,
          PayloadAttributes = None,
          ForkVersion = chainSpec_ActiveForkVersionForSlot s (GetSlot (GetBeaconBlock cb))\<rparr>
       # logs
       \<and> (\<forall>rq. NotifyForkchoiceUpdate rq \<notin> set logs)" for lph
    by (simp add: sendNextFCUWithoutAttributes_def BuildForkchoiceUpdateRequestNoAttrs_def
        Let_def)
  have w: "NotifyForkchoiceUpdate rq \<notin> set (sendNextFCUWithAttributes s st cb lph)"
    for rq lph
    by (simp add: sendNextFCUWithAttributes_def Let_def split: prod.splits)
  have b: "NotifyForkchoiceUpdate rq \<in> set (sendPostBlockFCU s st cb) \<longrightarrow>
         PayloadAttributes rq = None
         \<and> HeadBlockHash (State rq)
             = GetBlockHash (fst (bst_GetLatestExecutionPayloadHeader s st))
         \<and> SafeBlockHash (State rq)
             = GetParentHash (fst (bst_GetLatestExecutionPayloadHeader s st))
         \<and> FinalizedBlockHash (State rq)
             = GetParentHash (fst (bst_GetLatestExecutionPayloadHeader s st))" for rq
  proof
    assume m: "NotifyForkchoiceUpdate rq \<in> set (sendPostBlockFCU s st cb)"
    obtain lph err where l: "bst_GetLatestExecutionPayloadHeader s st = (lph, err)"
      by (cases "bst_GetLatestExecutionPayloadHeader s st")
    from a [of lph] obtain logs where
      e: "sendNextFCUWithoutAttributes s cb lph =
       NotifyForkchoiceUpdate
         \<lparr>State = \<lparr>HeadBlockHash = GetBlockHash lph, SafeBlockHash = GetParentHash lph,
                   FinalizedBlockHash = GetParentHash lph\<rparr>,
          PayloadAttributes = None,
          ForkVersion = chainSpec_ActiveForkVersionForSlot s (GetSlot (GetBeaconBlock cb))\<rparr>
       # logs" and n: "\<forall>rq. NotifyForkchoiceUpdate rq \<notin> set logs" by blast
    from m l w have "NotifyForkchoiceUpdate rq \<in> set (sendNextFCUWithoutAttributes s cb lph)"
      by (auto simp: sendPostBlockFCU_def split: if_splits)
    with e n have
      "rq = \<lparr>State = \<lparr>HeadBlockHash = GetBlockHash lph, SafeBlockHash = GetParentHash lph,
                      FinalizedBlockHash = GetParentHash lph\<rparr>,
             PayloadAttributes = None,
             ForkVersion = chainSpec_ActiveForkVersionForSlot s (GetSlot (GetBeaconBlock cb))\<rparr>"
      by auto
    with l show "PayloadAttributes rq = None
         \<and> HeadBlockHash (State rq)
             = GetBlockHash (fst (bst_GetLatestExecutionPayloadHeader s st))
         \<and> SafeBlockHash (State rq)
             = GetParentHash (fst (bst_GetLatestExecutionPayloadHeader s st))
         \<and> FinalizedBlockHash (State rq)
             = GetParentHash (fst (bst_GetLatestExecutionPayloadHeader s st))" by simp
  qed
  from a b show ?thesis by blast
qed

theorem fcu_without_attributes_witness:
  "sendPostBlockFCU finalizedModeService 5 consensusBlock5 =
     [NotifyForkchoiceUpdate
        \<lparr>State = \<lparr>HeadBlockHash = 44, SafeBlockHash = 33, FinalizedBlockHash = 33\<rparr>,
         PayloadAttributes = None, ForkVersion = 1\<rparr>]
   \<and> NotifyForkchoiceUpdate
        \<lparr>State = \<lparr>HeadBlockHash = 44, SafeBlockHash = 33, FinalizedBlockHash = 33\<rparr>,
         PayloadAttributes = None, ForkVersion = 1\<rparr>
      \<in> set (sendPostBlockFCU finalizedModeService 5 consensusBlock5)"
  using fcu_without_attributes [of finalizedModeService consensusBlock5 header4 5]
  by (simp add: sendPostBlockFCU_def sendNextFCUWithoutAttributes_def
      BuildForkchoiceUpdateRequestNoAttrs_def finalizedModeService_def consensusBlock5_def
      block5_def header4_def)

section \<open>The ABCI middleware: results\<close>

lemma createProcessProposalResponse_eq:
  "createProcessProposalResponse err =
     (if IsFatal err then (Some \<lparr>Status = PROCESS_PROPOSAL_STATUS_REJECT\<rparr>, err)
      else (Some \<lparr>Status = PROCESS_PROPOSAL_STATUS_ACCEPT\<rparr>, None))"
  by (simp add: createProcessProposalResponse_def)

lemma ProcessProposal_other:
  "(\<forall>r. request \<noteq> ProcessProposalRequest r) \<Longrightarrow>
   ProcessProposal h request s = (Return (None, Some ErrInvalidProcessProposalRequestType), s)"
  by (cases request) (simp_all add: ProcessProposal_def)

lemma createProcessProposalResponse_status:
  "createProcessProposalResponse err = (Some resp, e) \<Longrightarrow>
   (Status resp = PROCESS_PROPOSAL_STATUS_ACCEPT \<longleftrightarrow> e = None)
   \<and> (Status resp = PROCESS_PROPOSAL_STATUS_REJECT \<longleftrightarrow> IsFatal e)"
  by (cases "IsFatal err") (auto simp: createProcessProposalResponse_eq)

lemma ProcessProposal_response:
  "fst (ProcessProposal h request s) = Return (Some resp, e) \<Longrightarrow>
   \<exists>err. createProcessProposalResponse err = (Some resp, e)"
proof (cases request)
  case (ProcessProposalRequest q)
  assume "fst (ProcessProposal h request s) = Return (Some resp, e)"
  with ProcessProposalRequest show ?thesis
    by (auto simp: ProcessProposal_def Request_def Let_def
        split: prod.splits option.splits if_splits)
next
  case (FinalizeBlockRequest r)
  assume "fst (ProcessProposal h request s) = Return (Some resp, e)"
  with FinalizeBlockRequest show ?thesis by (simp add: ProcessProposal_def)
next
  case (OtherMessage n)
  assume "fst (ProcessProposal h request s) = Return (Some resp, e)"
  with OtherMessage show ?thesis by (simp add: ProcessProposal_def)
qed

text \<open>
  Claim C1, as the spec states it: the status is ACCEPT exactly when no fatal error
  occurred during block and sidecar verification, and a fatal error yields REJECT. It
  fails for an error met while the block is read out of the request: the source wraps that
  error as non-fatal whatever its kind, so a malformed block, a fatal error in the spec's
  own list, is answered with ACCEPT and a nil error.
\<close>

theorem ProcessProposal_counterexample:
  "IsFatal (Some (External ''malformed SSZ''))
   \<and> beaconBlockGossiper_Request malformedMiddleware (Some twoTxRequest)
       = (0, Some (External ''malformed SSZ''))
   \<and> ProcessProposal malformedMiddleware (ProcessProposalRequest (Some twoTxRequest)) run0
       = (Return (Some \<lparr>Status = PROCESS_PROPOSAL_STATUS_ACCEPT\<rparr>, None), run0)"
  by (simp add: ProcessProposal_def createProcessProposalResponse_def WrapNonFatal_def
      malformedMiddleware_def okMiddleware_def)

text \<open>
  Claim C1, amended. A message that is not a \<^verbatim>\<open>ProcessProposalRequest\<close> gets no response
  and the error \<^verbatim>\<open>ErrInvalidProcessProposalRequestType\<close>. For a
  \<^verbatim>\<open>ProcessProposalRequest\<close>: an error of reading the block, or of reading the sidecars
  after the block was verified without error, is wrapped as non-fatal whatever its kind
  and gives ACCEPT with a nil error; a \<^verbatim>\<open>VerifyBeaconBlock\<close> reply that carries an error,
  and otherwise the \<^verbatim>\<open>VerifySidecars\<close> reply, gives REJECT with the error it carries
  exactly when that error is fatal, and ACCEPT with a nil error exactly when it is
  non-fatal or absent. Every response returned has status ACCEPT exactly when the error
  returned with it is nil, and REJECT exactly when that error is fatal. The calls in which
  the dispatcher stores no reply are not spoken of.
\<close>

theorem ProcessProposal_status:
  "ProcessProposal h (FinalizeBlockRequest r) s
       = (Return (None, Some ErrInvalidProcessProposalRequestType), s)
     \<and> ProcessProposal h (OtherMessage n) s
       = (Return (None, Some ErrInvalidProcessProposalRequestType), s)
     \<and> (beaconBlockGossiper_Request h q = (blk, Some x1) \<longrightarrow>
         ProcessProposal h (ProcessProposalRequest q) s
           = (Return (Some \<lparr>Status = PROCESS_PROPOSAL_STATUS_ACCEPT\<rparr>, None), s))
     \<and> (beaconBlockGossiper_Request h q = (blk, None)
         \<and> on_VerifyBeaconBlock (dispatcher h) blk (world s) = ((y1, Some m1), w1)
         \<and> Error m1 \<noteq> None \<longrightarrow>
         fst (ProcessProposal h (ProcessProposalRequest q) s)
           = Return (if IsFatal (Error m1)
                     then (Some \<lparr>Status = PROCESS_PROPOSAL_STATUS_REJECT\<rparr>, Error m1)
                     else (Some \<lparr>Status = PROCESS_PROPOSAL_STATUS_ACCEPT\<rparr>, None)))
     \<and> (beaconBlockGossiper_Request h q = (blk, None)
         \<and> on_VerifyBeaconBlock (dispatcher h) blk (world s) = ((y1, Some m1), w1)
         \<and> Error m1 = None
         \<and> blobGossiper_Request h q = (sc, Some x2) \<longrightarrow>
         fst (ProcessProposal h (ProcessProposalRequest q) s)
           = Return (Some \<lparr>Status = PROCESS_PROPOSAL_STATUS_ACCEPT\<rparr>, None))
     \<and> (beaconBlockGossiper_Request h q = (blk, None)
         \<and> on_VerifyBeaconBlock (dispatcher h) blk (world s) = ((y1, Some m1), w1)
         \<and> Error m1 = None
         \<and> blobGossiper_Request h q = (sc, None)
         \<and> on_VerifySidecars (dispatcher h) sc w1 = ((y2, Some m2), w2) \<longrightarrow>
         fst (ProcessProposal h (ProcessProposalRequest q) s)
           = Return (if IsFatal (Error m2)
                     then (Some \<lparr>Status = PROCESS_PROPOSAL_STATUS_REJECT\<rparr>, Error m2)
                     else (Some \<lparr>Status = PROCESS_PROPOSAL_STATUS_ACCEPT\<rparr>, None)))
     \<and> (fst (ProcessProposal h request s) = Return (Some resp, e) \<longrightarrow>
         (Status resp = PROCESS_PROPOSAL_STATUS_ACCEPT \<longleftrightarrow> e = None)
         \<and> (Status resp = PROCESS_PROPOSAL_STATUS_REJECT \<longleftrightarrow> IsFatal e))"
proof -
  have a: "ProcessProposal h (FinalizeBlockRequest r) s
             = (Return (None, Some ErrInvalidProcessProposalRequestType), s)"
    and a': "ProcessProposal h (OtherMessage n) s
             = (Return (None, Some ErrInvalidProcessProposalRequestType), s)"
    by (simp_all add: ProcessProposal_def)
  have b: "(beaconBlockGossiper_Request h q = (blk, Some x1) \<longrightarrow>
         ProcessProposal h (ProcessProposalRequest q) s
           = (Return (Some \<lparr>Status = PROCESS_PROPOSAL_STATUS_ACCEPT\<rparr>, None), s))"
    by (auto simp: ProcessProposal_def Request_def Let_def createProcessProposalResponse_eq
        WrapNonFatal_def)
  have c: "(beaconBlockGossiper_Request h q = (blk, None)
         \<and> on_VerifyBeaconBlock (dispatcher h) blk (world s) = ((y1, Some m1), w1)
         \<and> Error m1 \<noteq> None \<longrightarrow>
         fst (ProcessProposal h (ProcessProposalRequest q) s)
           = Return (if IsFatal (Error m1)
                     then (Some \<lparr>Status = PROCESS_PROPOSAL_STATUS_REJECT\<rparr>, Error m1)
                     else (Some \<lparr>Status = PROCESS_PROPOSAL_STATUS_ACCEPT\<rparr>, None)))"
    by (auto simp: ProcessProposal_def Request_def Let_def createProcessProposalResponse_eq
        WrapNonFatal_def)
  have d: "(beaconBlockGossiper_Request h q = (blk, None)
         \<and> on_VerifyBeaconBlock (dispatcher h) blk (world s) = ((y1, Some m1), w1)
         \<and> Error m1 = None
         \<and> blobGossiper_Request h q = (sc, Some x2) \<longrightarrow>
         fst (ProcessProposal h (ProcessProposalRequest q) s)
           = Return (Some \<lparr>Status = PROCESS_PROPOSAL_STATUS_ACCEPT\<rparr>, None))"
    by (auto simp: ProcessProposal_def Request_def Let_def createProcessProposalResponse_eq
        WrapNonFatal_def)
  have e: "(beaconBlockGossiper_Request h q = (blk, None)
         \<and> on_VerifyBeaconBlock (dispatcher h) blk (world s) = ((y1, Some m1), w1)
         \<and> Error m1 = None
         \<and> blobGossiper_Request h q = (sc, None)
         \<and> on_VerifySidecars (dispatcher h) sc w1 = ((y2, Some m2), w2) \<longrightarrow>
         fst (ProcessProposal h (ProcessProposalRequest q) s)
           = Return (if IsFatal (Error m2)
                     then (Some \<lparr>Status = PROCESS_PROPOSAL_STATUS_REJECT\<rparr>, Error m2)
                     else (Some \<lparr>Status = PROCESS_PROPOSAL_STATUS_ACCEPT\<rparr>, None)))"
    by (auto simp: ProcessProposal_def Request_def Let_def createProcessProposalResponse_eq
        WrapNonFatal_def)
  have f: "fst (ProcessProposal h request s) = Return (Some resp, e) \<longrightarrow>
        (Status resp = PROCESS_PROPOSAL_STATUS_ACCEPT \<longleftrightarrow> e = None)
        \<and> (Status resp = PROCESS_PROPOSAL_STATUS_REJECT \<longleftrightarrow> IsFatal e)"
  proof
    assume "fst (ProcessProposal h request s) = Return (Some resp, e)"
    then obtain err where "createProcessProposalResponse err = (Some resp, e)"
      using ProcessProposal_response by blast
    then show "(Status resp = PROCESS_PROPOSAL_STATUS_ACCEPT \<longleftrightarrow> e = None)
        \<and> (Status resp = PROCESS_PROPOSAL_STATUS_REJECT \<longleftrightarrow> IsFatal e)"
      by (rule createProcessProposalResponse_status)
  qed
  from a a' b c d e f show ?thesis by blast
qed

theorem ProcessProposal_status_witness:
  "ProcessProposal malformedMiddleware (ProcessProposalRequest (Some twoTxRequest)) run0
     = (Return (Some \<lparr>Status = PROCESS_PROPOSAL_STATUS_ACCEPT\<rparr>, None), run0)
   \<and> fst (ProcessProposal rejectingMiddleware (ProcessProposalRequest (Some twoTxRequest))
            run0)
     = Return (Some \<lparr>Status = PROCESS_PROPOSAL_STATUS_REJECT\<rparr>,
               Some (External ''invalid state root''))
   \<and> fst (ProcessProposal malformedSidecarsMiddleware
            (ProcessProposalRequest (Some twoTxRequest)) run0)
     = Return (Some \<lparr>Status = PROCESS_PROPOSAL_STATUS_ACCEPT\<rparr>, None)
   \<and> fst (ProcessProposal timeoutMiddleware (ProcessProposalRequest (Some twoTxRequest)) run0)
     = Return (Some \<lparr>Status = PROCESS_PROPOSAL_STATUS_ACCEPT\<rparr>, None)
   \<and> fst (ProcessProposal okMiddleware (ProcessProposalRequest (Some twoTxRequest)) run0)
     = Return (Some \<lparr>Status = PROCESS_PROPOSAL_STATUS_ACCEPT\<rparr>, None)"
  using
    ProcessProposal_status [where h = malformedMiddleware and q = "Some twoTxRequest"
      and s = run0 and blk = 0 and ?x1.0 = "External ''malformed SSZ''"
      and request = "ProcessProposalRequest (Some twoTxRequest)"
      and resp = "\<lparr>Status = PROCESS_PROPOSAL_STATUS_ACCEPT\<rparr>" and e = None]
    ProcessProposal_status [where h = rejectingMiddleware and q = "Some twoTxRequest"
      and s = run0 and blk = 3 and ?y1.0 = None
      and ?m1.0 = "\<lparr>Data = 3, Error = Some (External ''invalid state root'')\<rparr>"
      and ?w1.0 = 1
      and request = "ProcessProposalRequest (Some twoTxRequest)"
      and resp = "\<lparr>Status = PROCESS_PROPOSAL_STATUS_REJECT\<rparr>"
      and e = "Some (External ''invalid state root'')"]
    ProcessProposal_status [where h = malformedSidecarsMiddleware
      and q = "Some twoTxRequest" and s = run0 and blk = 3 and ?y1.0 = None
      and ?m1.0 = "\<lparr>Data = 3, Error = None\<rparr>" and ?w1.0 = 1
      and sc = 0 and ?x2.0 = "External ''malformed SSZ''"]
    ProcessProposal_status [where h = timeoutMiddleware and q = "Some twoTxRequest"
      and s = run0 and blk = 3 and ?y1.0 = None
      and ?m1.0 = "\<lparr>Data = 3, Error = None\<rparr>" and ?w1.0 = 1
      and sc = 4 and ?y2.0 = None
      and ?m2.0 = "\<lparr>Data = 4, Error = Some (NonFatal (External ''timeout''))\<rparr>"
      and ?w2.0 = 2]
    ProcessProposal_status [where h = okMiddleware and q = "Some twoTxRequest"
      and s = run0 and blk = 3 and ?y1.0 = None
      and ?m1.0 = "\<lparr>Data = 3, Error = None\<rparr>" and ?w1.0 = 1
      and sc = 4 and ?y2.0 = None
      and ?m2.0 = "\<lparr>Data = 4, Error = None\<rparr>" and ?w2.0 = 2]
  by (simp add: ProcessProposal_def Request_def WrapNonFatal_def
      createProcessProposalResponse_def malformedMiddleware_def
      malformedSidecarsMiddleware_def rejectingMiddleware_def timeoutMiddleware_def
      okMiddleware_def okDispatcher_def okReply_def errReply_def run0_def twoTxRequest_def)

text \<open>
  Claim C3. \<^verbatim>\<open>ProcessProposal\<close> requests nothing, or \<^verbatim>\<open>VerifyBeaconBlock\<close> alone, or
  \<^verbatim>\<open>VerifyBeaconBlock\<close> and then \<^verbatim>\<open>VerifySidecars\<close>. When \<^verbatim>\<open>VerifySidecars\<close> is
  requested, the reply to \<^verbatim>\<open>VerifyBeaconBlock\<close> has been received and carries no error,
  and the sidecar responder runs in the world the block responder left behind. When the
  reply to \<^verbatim>\<open>VerifyBeaconBlock\<close> carries an error, the call returns with only
  \<^verbatim>\<open>VerifyBeaconBlock\<close> requested.
\<close>

theorem ProcessProposal_order:
  "(\<exists>suffix. issued (snd (ProcessProposal h request s)) = issued s @ suffix
       \<and> (suffix = [] \<or> suffix = [VerifyBeaconBlock]
            \<or> suffix = [VerifyBeaconBlock, VerifySidecars]))
   \<and> (issued (snd (ProcessProposal h request s))
         = issued s @ [VerifyBeaconBlock, VerifySidecars] \<longrightarrow>
       (\<exists>abciReq blk x m1 w1 sidecars.
           request = ProcessProposalRequest abciReq
           \<and> beaconBlockGossiper_Request h abciReq = (blk, None)
           \<and> on_VerifyBeaconBlock (dispatcher h) blk (world s) = ((x, Some m1), w1)
           \<and> Error m1 = None
           \<and> blobGossiper_Request h abciReq = (sidecars, None)
           \<and> world (snd (ProcessProposal h request s))
               = snd (on_VerifySidecars (dispatcher h) sidecars w1)))
   \<and> (beaconBlockGossiper_Request h q = (b, None)
       \<and> on_VerifyBeaconBlock (dispatcher h) b (world s) = ((y, Some m), w)
       \<and> Error m = Some e \<longrightarrow>
       ProcessProposal h (ProcessProposalRequest q) s
         = (Return (createProcessProposalResponse (Some e)),
            s\<lparr>world := w, issued := issued s @ [VerifyBeaconBlock]\<rparr>))"
proof -
  have a: "\<exists>suffix. issued (snd (ProcessProposal h request s)) = issued s @ suffix
       \<and> (suffix = [] \<or> suffix = [VerifyBeaconBlock]
            \<or> suffix = [VerifyBeaconBlock, VerifySidecars])"
    by (cases request)
      (auto simp: ProcessProposal_def Request_def Let_def split: prod.splits option.splits)
  have b: "issued (snd (ProcessProposal h request s))
         = issued s @ [VerifyBeaconBlock, VerifySidecars] \<longrightarrow>
       (\<exists>abciReq blk x m1 w1 sidecars.
           request = ProcessProposalRequest abciReq
           \<and> beaconBlockGossiper_Request h abciReq = (blk, None)
           \<and> on_VerifyBeaconBlock (dispatcher h) blk (world s) = ((x, Some m1), w1)
           \<and> Error m1 = None
           \<and> blobGossiper_Request h abciReq = (sidecars, None)
           \<and> world (snd (ProcessProposal h request s))
               = snd (on_VerifySidecars (dispatcher h) sidecars w1))"
    by (cases request)
      (auto simp: ProcessProposal_def Request_def Let_def split: prod.splits option.splits)
  have c: "beaconBlockGossiper_Request h q = (b, None)
       \<and> on_VerifyBeaconBlock (dispatcher h) b (world s) = ((y, Some m), w)
       \<and> Error m = Some e \<longrightarrow>
       ProcessProposal h (ProcessProposalRequest q) s
         = (Return (createProcessProposalResponse (Some e)),
            s\<lparr>world := w, issued := issued s @ [VerifyBeaconBlock]\<rparr>)"
    by (auto simp: ProcessProposal_def Request_def Let_def)
  from a b c show ?thesis by blast
qed

theorem ProcessProposal_order_witness:
  "issued (snd (ProcessProposal okMiddleware (ProcessProposalRequest (Some twoTxRequest)) run0))
     = [VerifyBeaconBlock, VerifySidecars]
   \<and> world (snd (ProcessProposal okMiddleware
                   (ProcessProposalRequest (Some twoTxRequest)) run0)) = 2
   \<and> ProcessProposal rejectingMiddleware (ProcessProposalRequest (Some twoTxRequest)) run0
     = (Return (Some \<lparr>Status = PROCESS_PROPOSAL_STATUS_REJECT\<rparr>,
                Some (External ''invalid state root'')),
        \<lparr>world = 1, issued = [VerifyBeaconBlock], req = None\<rparr>)"
  using
    ProcessProposal_order [where h = okMiddleware
      and request = "ProcessProposalRequest (Some twoTxRequest)" and s = run0
      and q = "Some twoTxRequest" and b = 3 and y = None
      and m = "\<lparr>Data = 3, Error = Some (External ''invalid state root'')\<rparr>"
      and w = 1 and e = "External ''invalid state root''"]
    ProcessProposal_order [where h = rejectingMiddleware
      and request = "ProcessProposalRequest (Some twoTxRequest)" and s = run0
      and q = "Some twoTxRequest" and b = 3 and y = None
      and m = "\<lparr>Data = 3, Error = Some (External ''invalid state root'')\<rparr>"
      and w = 1 and e = "External ''invalid state root''"]
  by (simp add: ProcessProposal_def Request_def createProcessProposalResponse_def
      rejectingMiddleware_def okMiddleware_def okDispatcher_def okReply_def errReply_def run0_def twoTxRequest_def noTxRequest_def)

text \<open>
  Claim C2. The claim has \<^verbatim>\<open>EndBlock\<close> surface the error of either request when it
  fails. \<^verbatim>\<open>EndBlock\<close> drops the value \<^verbatim>\<open>dispatcher.Request\<close> returns, for
  \<^verbatim>\<open>ProcessSidecars\<close> and for \<^verbatim>\<open>FinalizeBeaconBlock\<close> alike: when the request itself
  fails and no reply is stored, the error is lost and the next statement reads
  \<^verbatim>\<open>Error()\<close> through the nil envelope pointer. \<^verbatim>\<open>PrepareProposal\<close>, in the same file,
  tests that value and returns the error.
\<close>

theorem EndBlock_drops_request_error:
  "fst (on_ProcessSidecars (dispatcher sidecarRequestFailMiddleware) 4 0)
     = (Some (External ''context cancelled''), None)
   \<and> EndBlock sidecarRequestFailMiddleware (run0\<lparr>req := Some twoTxRequest\<rparr>)
     = (Panic, \<lparr>world = 0, issued = [ProcessSidecars], req = Some twoTxRequest\<rparr>)
   \<and> fst (on_FinalizeBeaconBlock (dispatcher finalizeRequestFailMiddleware) 3 1)
     = (Some (External ''context cancelled''), None)
   \<and> EndBlock finalizeRequestFailMiddleware (run0\<lparr>req := Some twoTxRequest\<rparr>)
     = (Panic,
        \<lparr>world = 1, issued = [ProcessSidecars, FinalizeBeaconBlock],
         req = Some twoTxRequest\<rparr>)
   \<and> fst (PrepareProposal buildFailMiddleware 5 run0)
     = Return (None, None, Some (External ''no responder''))"
  by (simp add: EndBlock_def PrepareProposal_def Request_def BeaconBlockTxIndex_def
      BlobSidecarsTxIndex_def len_def sidecarRequestFailMiddleware_def
      finalizeRequestFailMiddleware_def buildFailMiddleware_def okMiddleware_def
      okDispatcher_def okReply_def run0_def twoTxRequest_def)

text \<open>
  Extra X3. What holds of \<^verbatim>\<open>EndBlock\<close> as it is written: it requests nothing, or
  \<^verbatim>\<open>ProcessSidecars\<close> alone, or \<^verbatim>\<open>ProcessSidecars\<close> and then \<^verbatim>\<open>FinalizeBeaconBlock\<close>.
  When \<^verbatim>\<open>FinalizeBeaconBlock\<close> is requested, the reply to \<^verbatim>\<open>ProcessSidecars\<close> has been
  received and carries no error, and the finalizing responder runs in the world the
  sidecar responder left behind. An error carried by the reply to \<^verbatim>\<open>ProcessSidecars\<close> is
  returned, with nil validator updates and without \<^verbatim>\<open>FinalizeBeaconBlock\<close> being
  requested; the reply to \<^verbatim>\<open>FinalizeBeaconBlock\<close> is returned as it is, its error
  included.
\<close>

theorem EndBlock_order:
  "(\<exists>suffix. issued (snd (EndBlock h s)) = issued s @ suffix
       \<and> (suffix = [] \<or> suffix = [ProcessSidecars]
            \<or> suffix = [ProcessSidecars, FinalizeBeaconBlock]))
   \<and> (issued (snd (EndBlock h s)) = issued s @ [ProcessSidecars, FinalizeBeaconBlock] \<longrightarrow>
       (\<exists>r blk blobs x m1 w1.
           req s = Some r
           \<and> ExtractBlobsAndBlockFromRequest h (Some r) BeaconBlockTxIndex BlobSidecarsTxIndex
               (ActiveForkVersionForSlot h (GetHeight r)) = (blk, blobs, None)
           \<and> on_ProcessSidecars (dispatcher h) blobs (world s) = ((x, Some m1), w1)
           \<and> Error m1 = None
           \<and> world (snd (EndBlock h s)) = snd (on_FinalizeBeaconBlock (dispatcher h) blk w1)))
   \<and> (req s = Some r
       \<and> ExtractBlobsAndBlockFromRequest h (Some r) BeaconBlockTxIndex BlobSidecarsTxIndex
           (ActiveForkVersionForSlot h (GetHeight r)) = (blk, blobs, None)
       \<and> on_ProcessSidecars (dispatcher h) blobs (world s) = ((x, Some m1), w1)
       \<and> Error m1 = Some e \<longrightarrow>
       EndBlock h s
         = (Return (None, Some e), s\<lparr>world := w1, issued := issued s @ [ProcessSidecars]\<rparr>))
   \<and> (req s = Some r
       \<and> ExtractBlobsAndBlockFromRequest h (Some r) BeaconBlockTxIndex BlobSidecarsTxIndex
           (ActiveForkVersionForSlot h (GetHeight r)) = (blk, blobs, None)
       \<and> on_ProcessSidecars (dispatcher h) blobs (world s) = ((x, Some m1), w1)
       \<and> Error m1 = None
       \<and> on_FinalizeBeaconBlock (dispatcher h) blk w1 = ((y, Some m2), w2) \<longrightarrow>
       EndBlock h s
         = (Return (Data m2, Error m2),
            s\<lparr>world := w2, issued := issued s @ [ProcessSidecars, FinalizeBeaconBlock]\<rparr>))"
proof -
  have a: "\<exists>suffix. issued (snd (EndBlock h s)) = issued s @ suffix
       \<and> (suffix = [] \<or> suffix = [ProcessSidecars]
            \<or> suffix = [ProcessSidecars, FinalizeBeaconBlock])"
    by (auto simp: EndBlock_def Request_def Let_def split: prod.splits option.splits)
  have b: "issued (snd (EndBlock h s)) = issued s @ [ProcessSidecars, FinalizeBeaconBlock] \<longrightarrow>
       (\<exists>r blk blobs x m1 w1.
           req s = Some r
           \<and> ExtractBlobsAndBlockFromRequest h (Some r) BeaconBlockTxIndex BlobSidecarsTxIndex
               (ActiveForkVersionForSlot h (GetHeight r)) = (blk, blobs, None)
           \<and> on_ProcessSidecars (dispatcher h) blobs (world s) = ((x, Some m1), w1)
           \<and> Error m1 = None
           \<and> world (snd (EndBlock h s)) = snd (on_FinalizeBeaconBlock (dispatcher h) blk w1))"
    by (auto simp: EndBlock_def Request_def Let_def split: prod.splits option.splits)
  have c: "req s = Some r
       \<and> ExtractBlobsAndBlockFromRequest h (Some r) BeaconBlockTxIndex BlobSidecarsTxIndex
           (ActiveForkVersionForSlot h (GetHeight r)) = (blk, blobs, None)
       \<and> on_ProcessSidecars (dispatcher h) blobs (world s) = ((x, Some m1), w1)
       \<and> Error m1 = Some e \<longrightarrow>
       EndBlock h s
         = (Return (None, Some e), s\<lparr>world := w1, issued := issued s @ [ProcessSidecars]\<rparr>)"
    by (auto simp: EndBlock_def Request_def Let_def)
  have d: "req s = Some r
       \<and> ExtractBlobsAndBlockFromRequest h (Some r) BeaconBlockTxIndex BlobSidecarsTxIndex
           (ActiveForkVersionForSlot h (GetHeight r)) = (blk, blobs, None)
       \<and> on_ProcessSidecars (dispatcher h) blobs (world s) = ((x, Some m1), w1)
       \<and> Error m1 = None
       \<and> on_FinalizeBeaconBlock (dispatcher h) blk w1 = ((y, Some m2), w2) \<longrightarrow>
       EndBlock h s
         = (Return (Data m2, Error m2),
            s\<lparr>world := w2, issued := issued s @ [ProcessSidecars, FinalizeBeaconBlock]\<rparr>)"
    by (auto simp: EndBlock_def Request_def Let_def)
  from a b c d show ?thesis by blast
qed

theorem EndBlock_order_witness:
  "EndBlock okMiddleware (run0\<lparr>req := Some twoTxRequest\<rparr>)
     = (Return (Some [3], None),
        \<lparr>world = 2, issued = [ProcessSidecars, FinalizeBeaconBlock],
         req = Some twoTxRequest\<rparr>)
   \<and> EndBlock sidecarFailMiddleware (run0\<lparr>req := Some twoTxRequest\<rparr>)
     = (Return (None, Some (External ''store unavailable'')),
        \<lparr>world = 1, issued = [ProcessSidecars], req = Some twoTxRequest\<rparr>)"
  using
    EndBlock_order [where h = okMiddleware and s = "run0\<lparr>req := Some twoTxRequest\<rparr>"
      and r = twoTxRequest and blk = 3 and blobs = 4 and x = None
      and ?m1.0 = "\<lparr>Data = 4, Error = None\<rparr>" and ?w1.0 = 1 and y = None
      and ?m2.0 = "\<lparr>Data = Some [3], Error = None\<rparr>" and ?w2.0 = 2
      and e = "External ''store unavailable''"]
    EndBlock_order [where h = sidecarFailMiddleware
      and s = "run0\<lparr>req := Some twoTxRequest\<rparr>"
      and r = twoTxRequest and blk = 3 and blobs = 4 and x = None
      and ?m1.0 = "\<lparr>Data = 4, Error = Some (External ''store unavailable'')\<rparr>"
      and ?w1.0 = 1 and y = None
      and ?m2.0 = "\<lparr>Data = Some [3], Error = None\<rparr>" and ?w2.0 = 2
      and e = "External ''store unavailable''"]
  by (simp add: EndBlock_def Request_def BeaconBlockTxIndex_def BlobSidecarsTxIndex_def
      len_def sidecarFailMiddleware_def okMiddleware_def okDispatcher_def okReply_def errReply_def run0_def twoTxRequest_def noTxRequest_def)

text \<open>
  Claim C9. When the request that \<^verbatim>\<open>PreBlock\<close> stored does not yield a beacon block and
  sidecars at the fixed transaction indices (the extraction reports an error),
  \<^verbatim>\<open>EndBlock\<close> returns nil validator updates and a nil error, requests nothing and
  changes nothing.
\<close>

theorem EndBlock_no_block:
  "req s = Some r
   \<and> ExtractBlobsAndBlockFromRequest h (Some r) BeaconBlockTxIndex BlobSidecarsTxIndex
       (ActiveForkVersionForSlot h (GetHeight r)) = (blk, blobs, Some e) \<longrightarrow>
   EndBlock h s = (Return (None, None), s)"
proof
  assume a: "req s = Some r
   \<and> ExtractBlobsAndBlockFromRequest h (Some r) BeaconBlockTxIndex BlobSidecarsTxIndex
       (ActiveForkVersionForSlot h (GetHeight r)) = (blk, blobs, Some e)"
  then have held: "req s = Some r" by simp
  from a have failed:
    "ExtractBlobsAndBlockFromRequest h (req s) BeaconBlockTxIndex BlobSidecarsTxIndex
       (ActiveForkVersionForSlot h (GetHeight r)) = (blk, blobs, Some e)"
    by simp
  show "EndBlock h s = (Return (None, None), s)"
    unfolding EndBlock_def using held failed by simp
qed

theorem EndBlock_no_block_witness:
  "PreBlock (FinalizeBlockRequest (Some noTxRequest)) run0
     = (None, run0\<lparr>req := Some noTxRequest\<rparr>)
   \<and> EndBlock okMiddleware (run0\<lparr>req := Some noTxRequest\<rparr>)
     = (Return (None, None), run0\<lparr>req := Some noTxRequest\<rparr>)
   \<and> issued (snd (EndBlock okMiddleware (run0\<lparr>req := Some noTxRequest\<rparr>))) = []"
  using
    EndBlock_no_block [where h = okMiddleware and s = "run0\<lparr>req := Some noTxRequest\<rparr>"
      and r = noTxRequest and blk = 0 and blobs = 0 and e = ErrNoBeaconBlockInRequest]
  by (simp add: PreBlock_def BeaconBlockTxIndex_def BlobSidecarsTxIndex_def len_def
      okMiddleware_def okDispatcher_def okReply_def errReply_def run0_def twoTxRequest_def noTxRequest_def)

text \<open>
  Claim C5. Whenever \<^verbatim>\<open>PrepareProposal\<close> returns an error, both byte slices it returns
  are nil. This is so at each stage: when the build request itself returns an error, when
  the build reply carries one, when publishing the block fails and when publishing the
  sidecars fails (the block's bytes, already at hand, are dropped).
\<close>

theorem PrepareProposal_never_partial:
  "(fst (PrepareProposal h slotData s) = Return (bbBz, scBz, Some e) \<longrightarrow>
      bbBz = None \<and> scBz = None)
   \<and> (on_BuildBeaconBlockAndSidecars (dispatcher h) slotData (world s) = ((Some e1, resp), w1)
      \<longrightarrow> fst (PrepareProposal h slotData s) = Return (None, None, Some e1))
   \<and> (on_BuildBeaconBlockAndSidecars (dispatcher h) slotData (world s) = ((None, Some m), w1)
      \<and> Error m = Some e2
      \<longrightarrow> fst (PrepareProposal h slotData s) = Return (None, None, Some e2))
   \<and> (on_BuildBeaconBlockAndSidecars (dispatcher h) slotData (world s) = ((None, Some m), w1)
      \<and> Error m = None
      \<and> beaconBlockGossiper_Publish h (bundle_GetBeaconBlock (Data m)) = (bz1, Some e3)
      \<longrightarrow> fst (PrepareProposal h slotData s) = Return (None, None, Some e3))
   \<and> (on_BuildBeaconBlockAndSidecars (dispatcher h) slotData (world s) = ((None, Some m), w1)
      \<and> Error m = None
      \<and> beaconBlockGossiper_Publish h (bundle_GetBeaconBlock (Data m)) = (bz1, None)
      \<and> blobGossiper_Publish h (GetSidecars (Data m)) = (bz2, Some e4)
      \<longrightarrow> fst (PrepareProposal h slotData s) = Return (None, None, Some e4))"
proof -
  have a: "fst (PrepareProposal h slotData s) = Return (bbBz, scBz, Some e) \<longrightarrow>
      bbBz = None \<and> scBz = None"
    by (auto simp: PrepareProposal_def handleBeaconBlockBundleResponse_def Request_def Let_def
        split: prod.splits option.splits if_splits)
  have b: "on_BuildBeaconBlockAndSidecars (dispatcher h) slotData (world s)
             = ((Some e1, resp), w1)
      \<longrightarrow> fst (PrepareProposal h slotData s) = Return (None, None, Some e1)"
    by (auto simp: PrepareProposal_def Request_def Let_def)
  have c: "on_BuildBeaconBlockAndSidecars (dispatcher h) slotData (world s)
             = ((None, Some m), w1)
      \<and> Error m = Some e2
      \<longrightarrow> fst (PrepareProposal h slotData s) = Return (None, None, Some e2)"
    by (auto simp: PrepareProposal_def handleBeaconBlockBundleResponse_def Request_def Let_def)
  have d: "on_BuildBeaconBlockAndSidecars (dispatcher h) slotData (world s)
             = ((None, Some m), w1)
      \<and> Error m = None
      \<and> beaconBlockGossiper_Publish h (bundle_GetBeaconBlock (Data m)) = (bz1, Some e3)
      \<longrightarrow> fst (PrepareProposal h slotData s) = Return (None, None, Some e3)"
    by (auto simp: PrepareProposal_def handleBeaconBlockBundleResponse_def Request_def Let_def)
  have e: "on_BuildBeaconBlockAndSidecars (dispatcher h) slotData (world s)
             = ((None, Some m), w1)
      \<and> Error m = None
      \<and> beaconBlockGossiper_Publish h (bundle_GetBeaconBlock (Data m)) = (bz1, None)
      \<and> blobGossiper_Publish h (GetSidecars (Data m)) = (bz2, Some e4)
      \<longrightarrow> fst (PrepareProposal h slotData s) = Return (None, None, Some e4)"
    by (auto simp: PrepareProposal_def handleBeaconBlockBundleResponse_def Request_def Let_def)
  from a b c d e show ?thesis by blast
qed

theorem PrepareProposal_never_partial_witness:
  "fst (PrepareProposal buildFailMiddleware 5 run0)
     = Return (None, None, Some (External ''no responder''))
   \<and> fst (PrepareProposal gossipFailMiddleware 5 run0)
     = Return (None, None, Some (External ''gossip failed''))
   \<and> fst (PrepareProposal okMiddleware 5 run0) = Return (Some [3], Some [4], None)"
  using
    PrepareProposal_never_partial [where h = buildFailMiddleware and slotData = 5
      and s = run0 and bbBz = None and scBz = None and e = "External ''no responder''"
      and ?e1.0 = "External ''no responder''" and resp = None and ?w1.0 = 0]
    PrepareProposal_never_partial [where h = gossipFailMiddleware and slotData = 5
      and s = run0 and bbBz = None and scBz = None and e = "External ''gossip failed''"
      and m = "\<lparr>Data = \<lparr>bundle_GetBeaconBlock = 3, GetSidecars = 4\<rparr>, Error = None\<rparr>"
      and ?w1.0 = 1 and ?bz1.0 = "Some [3]" and ?bz2.0 = "Some [4]"
      and ?e4.0 = "External ''gossip failed''"]
  by (simp add: PrepareProposal_def handleBeaconBlockBundleResponse_def Request_def
      buildFailMiddleware_def gossipFailMiddleware_def okMiddleware_def okDispatcher_def okReply_def errReply_def run0_def twoTxRequest_def noTxRequest_def)

section \<open>Requests of another type\<close>

text \<open>
  Extra X1. A message that is not a \<^verbatim>\<open>ProcessProposalRequest\<close> gets no response from
  \<^verbatim>\<open>ProcessProposal\<close>: the call returns a nil response with
  \<^verbatim>\<open>ErrInvalidProcessProposalRequestType\<close>, requests nothing and changes nothing.
\<close>

theorem ProcessProposal_invalid_type:
  "ProcessProposal h (FinalizeBlockRequest r) s
     = (Return (None, Some ErrInvalidProcessProposalRequestType), s)
   \<and> ProcessProposal h (OtherMessage n) s
     = (Return (None, Some ErrInvalidProcessProposalRequestType), s)"
  by (simp add: ProcessProposal_def)

text \<open>
  Extra X2. \<^verbatim>\<open>PreBlock\<close> stores the request of a \<^verbatim>\<open>FinalizeBlockRequest\<close> and returns
  no error; for a message of any other type it returns
  \<^verbatim>\<open>ErrInvalidFinalizeBlockRequestType\<close> and leaves the stored request as it was.
\<close>

theorem PreBlock_stores_request:
  "PreBlock (FinalizeBlockRequest r) s = (None, s\<lparr>req := r\<rparr>)
   \<and> PreBlock (ProcessProposalRequest r) s = (Some ErrInvalidFinalizeBlockRequestType, s)
   \<and> PreBlock (OtherMessage n) s = (Some ErrInvalidFinalizeBlockRequestType, s)"
  by (simp add: PreBlock_def)

end
